theory Spec2Isabelle
  imports Complex_Main "HOL-Library.Word"
begin

section \<open>Byte strings and end-of-line normalisation\<close>

text \<open>
  File contents are Python \<open>bytes\<close>: lists of 8-bit words. The two line-ending bytes
  are carriage return (13) and line feed (10).
\<close>

type_synonym byte = "8 word"
type_synonym bytes = "byte list"

definition CR :: byte where
  "CR = 13"

definition LF :: byte where
  "LF = 10"

text \<open>
  \<open>bytes.replace(old, new)\<close>: every occurrence of \<open>old\<close> is replaced, scanning from the
  left and never overlapping. With an empty \<open>old\<close> Python inserts \<open>new\<close> before every
  byte and at the end.
\<close>

function replace :: "'a list \<Rightarrow> 'a list \<Rightarrow> 'a list \<Rightarrow> 'a list" where
  "replace old new [] = (if old = [] then new else [])"
| "replace old new (c # cs) =
     (if old = [] then new @ c # replace old new cs
      else if take (length old) (c # cs) = old
           then new @ replace old new (drop (length old) (c # cs))
           else c # replace old new cs)"
  by pat_completeness auto
termination
  by (relation "measure (\<lambda>(old, new, s). length s)") (auto simp: neq_Nil_conv)

text \<open>
  \<open>_normalize_bytes\<close> of \<open>core/bidirectional.py\<close>. The target is the task's
  \<open>eol_normalize\<close> string, compared as the source compares it.
\<close>

definition normalize_bytes :: "bytes \<Rightarrow> string \<Rightarrow> bytes" where
  "normalize_bytes content target =
     (if target = ''keep'' then content
      else
        let normalized = replace [CR, LF] [LF] content;
            normalized = replace [CR] [LF] normalized;
            normalized = (if target = ''crlf'' then replace [LF] [CR, LF] normalized
                          else normalized)
        in normalized)"

text \<open>
  \<open>normalize_line_endings\<close> of \<open>core/eol_normalizer.py\<close>, as a function of the bytes
  read from the file: the value returned with \<open>in_place=False\<close>, which is also what
  the file holds afterwards with \<open>in_place=True\<close> (in \<open>keep\<close> mode the file is not
  touched). Failure of the read or of the write is not part of this function.
\<close>

definition normalize_line_endings :: "bytes \<Rightarrow> string \<Rightarrow> bytes" where
  "normalize_line_endings content target =
     (if target = ''keep'' then content
      else
        let normalized = replace [CR, LF] [LF] content;
            normalized = replace [CR] [LF] normalized;
            normalized = (if target = ''crlf'' then replace [LF] [CR, LF] normalized
                          else normalized)
        in normalized)"

section \<open>Strings, paths and shell patterns\<close>

text \<open>
  Python \<open>str\<close> values are modelled as \<open>string\<close>. The functions of this section model
  the standard-library operations the path filter calls, on a POSIX host (\<open>os.sep\<close> is
  \<open>/\<close>, \<open>os.path.normcase\<close> is the identity): \<open>str.split\<close> with a one-character
  separator, \<open>str.join\<close>, \<open>str.find\<close>, \<open>str.rfind\<close>, \<open>str.lower\<close> (on ASCII letters),
  \<open>PurePosixPath\<close> (\<open>str(p)\<close>, \<open>p.name\<close>, \<open>p.suffix\<close>) and \<open>fnmatch.fnmatch\<close>. The suffix
  is the one of Python up to 3.12: the name from its last dot on, unless that dot is
  the first or the last character of the name.
\<close>

fun split_on :: "char \<Rightarrow> string \<Rightarrow> string list" where
  "split_on sep [] = [[]]"
| "split_on sep (c # cs) =
     (if c = sep then [] # split_on sep cs
      else (case split_on sep cs of
              [] \<Rightarrow> [[c]]
            | w # ws \<Rightarrow> (c # w) # ws))"


fun index_of :: "char \<Rightarrow> string \<Rightarrow> nat option" where
  "index_of c [] = None"
| "index_of c (x # xs) = (if x = c then Some 0 else map_option Suc (index_of c xs))"


definition rfind :: "char \<Rightarrow> string \<Rightarrow> nat option" where
  "rfind c s = map_option (\<lambda>i. length s - 1 - i) (index_of c (rev s))"

text \<open>
  \<open>Path(s)\<close> drops empty and \<open>.\<close> components; \<open>str\<close> joins what is left behind the
  root (the empty string for a relative path), and the empty path prints as \<open>.\<close>.
\<close>

definition path_parts :: "string \<Rightarrow> string list" where
  "path_parts s = filter (\<lambda>p. p \<noteq> [] \<and> p \<noteq> ''.'') (split_on CHR ''/'' s)"



definition path_name :: "string \<Rightarrow> string" where
  "path_name s = (case path_parts s of [] \<Rightarrow> [] | p # ps \<Rightarrow> last (p # ps))"

definition name_suffix :: "string \<Rightarrow> string" where
  "name_suffix name =
     (case rfind CHR ''.'' name of
        None \<Rightarrow> []
      | Some i \<Rightarrow> if 0 < i \<and> i + 1 < length name then drop i name else [])"

definition path_suffix :: "string \<Rightarrow> string" where
  "path_suffix s = name_suffix (path_name s)"

definition lower_char :: "char \<Rightarrow> char" where
  "lower_char c =
     (let n = (of_char c :: nat)
      in if 65 \<le> n \<and> n \<le> 90 then char_of (n + 32) else c)"

definition lower :: "string \<Rightarrow> string" where
  "lower s = map lower_char s"














section \<open>Endpoints and the path filter\<close>

datatype side = A | B

fun other_side :: "side \<Rightarrow> side" where
  "other_side A = B"
| "other_side B = A"

datatype ep_type = Local | Ssh

text \<open>
  The fields \<open>LocalEndpoint\<close> and \<open>SshEndpoint\<close> share. \<open>_internal_dirs\<close> is the set
  \<open>{trash_dir, backup_dir}\<close>.
\<close>

record endpoint =
  ep_side :: side
  ep_type :: ep_type
  root :: string
  exclude_patterns :: "string list"
  file_extensions :: "string list"
  trash_dir :: string
  backup_dir :: string




section \<open>File meta and file state\<close>

text \<open>
  A file meta is a dict with the keys \<open>size\<close>, \<open>mtime\<close> and \<open>hash\<close>, each present or
  not; the empty dict has none. A key the dict lacks and a key whose value is \<open>None\<close>
  read the same through \<open>dict.get\<close>, which is the only way the code reads a meta.
  Modification times are Python floats, finite and compared only for equality; they
  are modelled as rationals. \<open>datetime\<close> values are modelled as integers (microseconds).
\<close>

record meta =
  msize :: "nat option"
  mtime :: "rat option"
  mhash :: "string option"

definition empty_meta :: meta where
  "empty_meta = \<lparr>msize = None, mtime = None, mhash = None\<rparr>"

text \<open>Python truth of a dict, of an optional dict, and of an optional string.\<close>

definition meta_truthy :: "meta \<Rightarrow> bool" where
  "meta_truthy m = (m \<noteq> empty_meta)"

definition opt_meta_truthy :: "meta option \<Rightarrow> bool" where
  "opt_meta_truthy m = (case m of None \<Rightarrow> False | Some d \<Rightarrow> meta_truthy d)"

definition str_truthy :: "string option \<Rightarrow> bool" where
  "str_truthy s = (case s of None \<Rightarrow> False | Some t \<Rightarrow> t \<noteq> [])"

text \<open>\<open>new_meta.get(key)\<close> on an optional dict that is known to be truthy.\<close>

definition meta_or_empty :: "meta option \<Rightarrow> meta" where
  "meta_or_empty m = (case m of None \<Rightarrow> empty_meta | Some d \<Rightarrow> d)"

text \<open>\<open>BidirectionalTaskRunner._meta_changed\<close>.\<close>

definition meta_changed :: "meta \<Rightarrow> meta option \<Rightarrow> bool" where
  "meta_changed old_meta new_meta =
     (if \<not> meta_truthy old_meta \<and> \<not> opt_meta_truthy new_meta then False
      else if \<not> meta_truthy old_meta \<or> \<not> opt_meta_truthy new_meta then True
      else
        let old_hash = mhash old_meta;
            new_hash = mhash (meta_or_empty new_meta)
        in if str_truthy old_hash \<and> str_truthy new_hash then old_hash \<noteq> new_hash
           else msize old_meta \<noteq> msize (meta_or_empty new_meta) \<or>
                mtime old_meta \<noteq> mtime (meta_or_empty new_meta))"

text \<open>
  The decision as the specification words it: absence on either side counts as
  changed; otherwise hashes are compared when both metas carry one, and size and
  modification time when not.
\<close>

definition spec_meta_changed :: "meta \<Rightarrow> meta option \<Rightarrow> bool" where
  "spec_meta_changed old_meta new_meta =
     (if \<not> meta_truthy old_meta \<or> \<not> opt_meta_truthy new_meta then True
      else if str_truthy (mhash old_meta) \<and> str_truthy (mhash (meta_or_empty new_meta))
           then mhash old_meta \<noteq> mhash (meta_or_empty new_meta)
           else (msize old_meta, mtime old_meta) \<noteq>
                (msize (meta_or_empty new_meta), mtime (meta_or_empty new_meta)))"

type_synonym datetime = int

text \<open>
  One row of the state cache. A key the dict lacks reads through \<open>dict.get\<close> as the
  default the row below has.
\<close>

record file_state =
  a_meta :: meta
  b_meta :: meta
  a_deleted :: bool
  b_deleted :: bool
  a_seen_at :: "datetime option"
  b_seen_at :: "datetime option"
  last_winner :: "side option"
  last_sync_at :: "datetime option"

definition empty_state :: file_state where
  "empty_state =
     \<lparr>a_meta = empty_meta, b_meta = empty_meta, a_deleted = False, b_deleted = False,
      a_seen_at = None, b_seen_at = None, last_winner = None, last_sync_at = None\<rparr>"

text \<open>The keys \<open>f"{side}_meta"\<close>, \<open>f"{side}_deleted"\<close> and \<open>f"{side}_seen_at"\<close>.\<close>

fun meta_of :: "side \<Rightarrow> file_state \<Rightarrow> meta" where
  "meta_of A st = a_meta st"
| "meta_of B st = b_meta st"

fun deleted_of :: "side \<Rightarrow> file_state \<Rightarrow> bool" where
  "deleted_of A st = a_deleted st"
| "deleted_of B st = b_deleted st"

fun seen_of :: "side \<Rightarrow> file_state \<Rightarrow> datetime option" where
  "seen_of A st = a_seen_at st"
| "seen_of B st = b_seen_at st"

fun set_meta :: "side \<Rightarrow> meta \<Rightarrow> file_state \<Rightarrow> file_state" where
  "set_meta A m st = st\<lparr>a_meta := m\<rparr>"
| "set_meta B m st = st\<lparr>b_meta := m\<rparr>"

fun set_deleted :: "side \<Rightarrow> bool \<Rightarrow> file_state \<Rightarrow> file_state" where
  "set_deleted A d st = st\<lparr>a_deleted := d\<rparr>"
| "set_deleted B d st = st\<lparr>b_deleted := d\<rparr>"

fun set_seen :: "side \<Rightarrow> datetime option \<Rightarrow> file_state \<Rightarrow> file_state" where
  "set_seen A t st = st\<lparr>a_seen_at := t\<rparr>"
| "set_seen B t st = st\<lparr>b_seen_at := t\<rparr>"

section \<open>Enumerating an endpoint's files\<close>

text \<open>
  The directory tree under an endpoint's root at one moment: an entry of a directory
  is a name with a file, which has the meta \<open>stat\<close> gives, or with a directory and its
  entries, in the order the listing returns them. Symbolic links, and a tree that
  changes during the enumeration, are not modelled.
\<close>

datatype fs_node = File meta | Dir "(string \<times> fs_node) list"







fun node_weight :: "fs_node \<Rightarrow> nat"
  and entries_weight :: "(string \<times> fs_node) list \<Rightarrow> nat" where
  "node_weight (File m) = 1"
| "node_weight (Dir sub) = Suc (entries_weight sub)"
| "entries_weight [] = 0"
| "entries_weight ((name, node) # rest) = node_weight node + entries_weight rest"



















section \<open>The environment: file systems, transports and clocks\<close>

text \<open>
  A Python exception, by the two classes the handlers of the code tell apart
  (\<open>except FileNotFoundError\<close> and \<open>except Exception\<close>), with the text \<open>str(e)\<close> gives.
\<close>

datatype exn_class = FileNotFoundError | OtherError

datatype exn = Exn exn_class string

fun exn_class_of :: "exn \<Rightarrow> exn_class" where
  "exn_class_of (Exn c m) = c"

fun exn_message :: "exn \<Rightarrow> string" where
  "exn_message (Exn c m) = m"

text \<open>
  The calls the engine makes on the world outside it: the clocks, the local file
  system (\<open>pathlib\<close>, \<open>open\<close>, \<open>shutil\<close>; \<open>MkParent\<close> is \<open>ensure_parent_dir\<close>), and the
  methods of the \<open>SSHTransfer\<close> of one side. \<open>SSHTransfer.delete_file\<close> is modelled
  below from \<open>EnsureConnected\<close> and \<open>SftpRemove\<close>; the other transfer methods are taken
  whole. \<open>ListFiles\<close> is an endpoint's \<open>list_files()\<close> and \<open>IterFiles\<close> its \<open>iter_files()\<close>.
\<close>

datatype io_call =
    DatetimeNow
  | TimeTime
  | PathExists string
  | PathStat string
  | ReadFile string
  | WriteFile string bytes
  | MkParent string
  | Copy2 string string
  | Move string string
  | Unlink string
  | TransferStat side string
  | TransferRead side string
  | TransferWrite side string bytes
  | TransferUpload side string string
  | TransferDownload side string string
  | TransferMove side string string
  | EnsureConnected side
  | SftpRemove side string
  | ListFiles side
  | IterFiles side

text \<open>
  What the engine has done so far, in order: its calls, and the moments it marked a
  path of a side as suppressed.
\<close>

datatype event = Called io_call | Suppressed side string

text \<open>
  The world answers every call: it returns or raises. The answer may depend on
  everything done before, so the same call can be answered differently at different
  moments (a file that is absent before a copy and present after it). \<open>strftime\<close> is
  \<open>datetime.strftime\<close> with the format \<open>%Y%m%d_%H%M%S\<close> and \<open>hexdigest\<close> is
  \<open>hashlib.new('md5', data).hexdigest()\<close>; both are pure and taken as given.
\<close>

record env =
  ret_unit :: "event list \<Rightarrow> io_call \<Rightarrow> exn option"
  ret_bool :: "event list \<Rightarrow> io_call \<Rightarrow> exn + bool"
  ret_stat :: "event list \<Rightarrow> io_call \<Rightarrow> exn + (nat \<times> rat)"
  ret_bytes :: "event list \<Rightarrow> io_call \<Rightarrow> exn + bytes"
  ret_files :: "event list \<Rightarrow> io_call \<Rightarrow> (string \<times> meta) list \<times> exn option"
  ret_datetime :: "event list \<Rightarrow> datetime"
  ret_time :: "event list \<Rightarrow> rat"
  strftime :: "datetime \<Rightarrow> string"
  hexdigest :: "bytes \<Rightarrow> string"

section \<open>The runner's state\<close>

text \<open>One row of \<open>sync_logs\<close> as \<open>create_log\<close> receives it (the task id is fixed).\<close>

record log_entry =
  event_type :: string
  file_path :: string
  dest_path :: "string option"
  status :: string
  error_message :: "string option"

text \<open>
  The mutable state of a \<open>BidirectionalTaskRunner\<close>. The state cache is a Python dict,
  kept as an association list in insertion order; \<open>db_rows\<close> are the rows
  \<open>_save_state\<close> has written to \<open>sync_file_state\<close>; \<open>trace\<close> records the events so far.
  The database is assumed not to fail.
\<close>

record runner =
  state_cache :: "(string \<times> file_state) list"
  db_rows :: "string \<rightharpoonup> file_state"
  sync_logs :: "log_entry list"
  suppress :: "side \<Rightarrow> string \<rightharpoonup> rat"
  batch_queue :: "string list"
  init_done :: bool
  stop_event :: bool
  trace :: "event list"

text \<open>The task's fixed configuration: the EOL policy and the two endpoints.\<close>

record task_config =
  eol_normalize :: string
  endpoints :: "side \<Rightarrow> endpoint"

text \<open>\<open>d[k] = v\<close> on a dict: the value is replaced in place, or the key is appended.\<close>

fun dict_put :: "'k \<Rightarrow> 'v \<Rightarrow> ('k \<times> 'v) list \<Rightarrow> ('k \<times> 'v) list" where
  "dict_put k v [] = [(k, v)]"
| "dict_put k v ((k', v') # kvs) =
     (if k' = k then (k, v) # kvs else (k', v') # dict_put k v kvs)"

text \<open>\<open>dict(pairs)\<close>: a later pair replaces an earlier one with the same key.\<close>

definition dict_of :: "('k \<times> 'v) list \<Rightarrow> ('k \<times> 'v) list" where
  "dict_of kvs = foldl (\<lambda>d (k, v). dict_put k v d) [] kvs"

text \<open>\<open>d.get(k)\<close>.\<close>

definition dict_get :: "('k \<times> 'v) list \<Rightarrow> 'k \<Rightarrow> 'v option" where
  "dict_get d k = map_of d k"

text \<open>\<open>self._state_cache.get(rel_path, {})\<close>, read through \<open>dict.get\<close> with defaults.\<close>

definition cached_state :: "runner \<Rightarrow> string \<Rightarrow> file_state" where
  "cached_state r rel_path =
     (case dict_get (state_cache r) rel_path of None \<Rightarrow> empty_state | Some st \<Rightarrow> st)"

section \<open>Actions: state, events and exceptions\<close>

text \<open>
  A method of the runner is a function from the runner's state to a result and the
  state it leaves: \<open>Inr\<close> a returned value, \<open>Inl\<close> a raised exception. The state at the
  moment of the raise is kept, as it is in Python.
\<close>

type_synonym 'a act = "runner \<Rightarrow> (exn + 'a) \<times> runner"

definition act_ret :: "'a \<Rightarrow> 'a act" where
  "act_ret x r = (Inr x, r)"

definition act_raise :: "exn \<Rightarrow> 'a act" where
  "act_raise e r = (Inl e, r)"

definition act_bind :: "'a act \<Rightarrow> ('a \<Rightarrow> 'b act) \<Rightarrow> 'b act" where
  "act_bind m f r = (case m r of (Inl e, r') \<Rightarrow> (Inl e, r') | (Inr x, r') \<Rightarrow> f x r')"

definition act_then :: "'a act \<Rightarrow> 'b act \<Rightarrow> 'b act" where
  "act_then m n = act_bind m (\<lambda>_. n)"

text \<open>\<open>try: m except Exception as e: h(e)\<close>.\<close>

definition act_catch :: "'a act \<Rightarrow> (exn \<Rightarrow> 'a act) \<Rightarrow> 'a act" where
  "act_catch m h r = (case m r of (Inl e, r') \<Rightarrow> h e r' | (Inr x, r') \<Rightarrow> (Inr x, r'))"

definition act_modify :: "(runner \<Rightarrow> runner) \<Rightarrow> unit act" where
  "act_modify f r = (Inr (), f r)"

definition record_event :: "event \<Rightarrow> runner \<Rightarrow> runner" where
  "record_event ev r = r\<lparr>trace := trace r @ [ev]\<rparr>"

text \<open>A call on the world: it is recorded, and the world's answer is its outcome.\<close>

definition call_unit :: "env \<Rightarrow> io_call \<Rightarrow> unit act" where
  "call_unit env c r =
     (case ret_unit env (trace r) c of
        None \<Rightarrow> (Inr (), record_event (Called c) r)
      | Some e \<Rightarrow> (Inl e, record_event (Called c) r))"

definition call_bool :: "env \<Rightarrow> io_call \<Rightarrow> bool act" where
  "call_bool env c r = (ret_bool env (trace r) c, record_event (Called c) r)"

definition call_stat :: "env \<Rightarrow> io_call \<Rightarrow> (nat \<times> rat) act" where
  "call_stat env c r = (ret_stat env (trace r) c, record_event (Called c) r)"

definition call_bytes :: "env \<Rightarrow> io_call \<Rightarrow> bytes act" where
  "call_bytes env c r = (ret_bytes env (trace r) c, record_event (Called c) r)"

definition datetime_now :: "env \<Rightarrow> datetime act" where
  "datetime_now env r = (Inr (ret_datetime env (trace r)), record_event (Called DatetimeNow) r)"

definition time_time :: "env \<Rightarrow> rat act" where
  "time_time env r = (Inr (ret_time env (trace r)), record_event (Called TimeTime) r)"

section \<open>Endpoint operations\<close>

text \<open>
  \<open>LocalEndpoint._abs_path\<close> and \<open>SshEndpoint._remote_path\<close>, for a relative
  \<open>rel_path\<close> under the endpoint's root (a remote root has no trailing \<open>/\<close>).
\<close>

definition abs_path :: "endpoint \<Rightarrow> string \<Rightarrow> string" where
  "abs_path ep rel_path = root ep @ ''/'' @ rel_path"

definition remote_path :: "endpoint \<Rightarrow> string \<Rightarrow> string" where
  "remote_path ep rel_path = root ep @ ''/'' @ replace [CHR 0x5C] ''/'' rel_path"

definition stat_meta :: "nat \<times> rat \<Rightarrow> meta" where
  "stat_meta st = \<lparr>msize = Some (fst st), mtime = Some (snd st), mhash = None\<rparr>"

text \<open>\<open>get_meta\<close>: the remote variant turns every exception into \<open>None\<close>.\<close>

definition get_meta :: "env \<Rightarrow> endpoint \<Rightarrow> string \<Rightarrow> meta option act" where
  "get_meta env ep rel_path =
     (case ep_type ep of
        Local \<Rightarrow>
          act_bind (call_bool env (PathExists (abs_path ep rel_path))) (\<lambda>ex.
            if \<not> ex then act_ret None
            else act_bind (call_stat env (PathStat (abs_path ep rel_path))) (\<lambda>st.
                   act_ret (Some (stat_meta st))))
      | Ssh \<Rightarrow>
          act_catch
            (act_bind (call_stat env (TransferStat (ep_side ep) (remote_path ep rel_path))) (\<lambda>st.
               act_ret (Some (stat_meta st))))
            (\<lambda>e. act_ret None))"

definition read_bytes :: "env \<Rightarrow> endpoint \<Rightarrow> string \<Rightarrow> bytes act" where
  "read_bytes env ep rel_path =
     (case ep_type ep of
        Local \<Rightarrow> call_bytes env (ReadFile (abs_path ep rel_path))
      | Ssh \<Rightarrow> call_bytes env (TransferRead (ep_side ep) (remote_path ep rel_path)))"

definition write_bytes :: "env \<Rightarrow> endpoint \<Rightarrow> string \<Rightarrow> bytes \<Rightarrow> unit act" where
  "write_bytes env ep rel_path data =
     (case ep_type ep of
        Local \<Rightarrow>
          act_then (call_unit env (MkParent (abs_path ep rel_path)))
                   (call_unit env (WriteFile (abs_path ep rel_path) data))
      | Ssh \<Rightarrow> call_unit env (TransferWrite (ep_side ep) (remote_path ep rel_path) data))"

text \<open>\<open>LocalEndpoint.copy_file\<close>, \<open>SshEndpoint.upload_file\<close> and \<open>download_file\<close>.\<close>

definition copy_file :: "env \<Rightarrow> endpoint \<Rightarrow> string \<Rightarrow> string \<Rightarrow> unit act" where
  "copy_file env ep src_abs rel_path =
     act_then (call_unit env (MkParent (abs_path ep rel_path)))
              (call_unit env (Copy2 src_abs (abs_path ep rel_path)))"

definition upload_file :: "env \<Rightarrow> endpoint \<Rightarrow> string \<Rightarrow> string \<Rightarrow> unit act" where
  "upload_file env ep local_path rel_path =
     call_unit env (TransferUpload (ep_side ep) local_path (remote_path ep rel_path))"

definition download_file :: "env \<Rightarrow> endpoint \<Rightarrow> string \<Rightarrow> string \<Rightarrow> unit act" where
  "download_file env ep rel_path local_path =
     call_unit env (TransferDownload (ep_side ep) (remote_path ep rel_path) local_path)"

text \<open>
  \<open>SSHTransfer.delete_file\<close>: \<open>ensure_connected\<close> stands outside the \<open>try\<close>; a
  \<open>FileNotFoundError\<close> of \<open>sftp.remove\<close> is passed over, any other exception is raised
  again as an \<open>IOError\<close> whose text ends with the first one's (the prefix stands for
  the source's message, which is not ASCII).
\<close>

definition delete_file :: "env \<Rightarrow> side \<Rightarrow> string \<Rightarrow> unit act" where
  "delete_file env sd remote =
     act_then (call_unit env (EnsureConnected sd))
       (act_catch (call_unit env (SftpRemove sd remote))
          (\<lambda>e. if exn_class_of e = FileNotFoundError then act_ret ()
               else act_raise (Exn OtherError (''delete failed: '' @ exn_message e))))"

definition trash_rel :: "endpoint \<Rightarrow> string \<Rightarrow> string \<Rightarrow> string" where
  "trash_rel ep ts rel_path = trash_dir ep @ ''/'' @ ts @ ''/'' @ rel_path"

definition backup_rel :: "endpoint \<Rightarrow> string \<Rightarrow> string \<Rightarrow> string" where
  "backup_rel ep ts rel_path = backup_dir ep @ ''/'' @ ts @ ''/'' @ rel_path"

text \<open>
  \<open>move_to_trash\<close>. Locally a missing source returns at once. Remotely a failed move
  falls back to read, write and delete, and a failure of the fallback is logged and
  not raised.
\<close>

definition move_to_trash :: "env \<Rightarrow> endpoint \<Rightarrow> string \<Rightarrow> string \<Rightarrow> unit act" where
  "move_to_trash env ep rel_path ts =
     (case ep_type ep of
        Local \<Rightarrow>
          act_bind (call_bool env (PathExists (abs_path ep rel_path))) (\<lambda>ex.
            if \<not> ex then act_ret ()
            else act_then (call_unit env (MkParent (abs_path ep (trash_rel ep ts rel_path))))
                   (call_unit env (Move (abs_path ep rel_path)
                                        (abs_path ep (trash_rel ep ts rel_path)))))
      | Ssh \<Rightarrow>
          act_catch
            (call_unit env (TransferMove (ep_side ep) (remote_path ep rel_path)
                                         (remote_path ep (trash_rel ep ts rel_path))))
            (\<lambda>_. act_catch
                    (act_bind (read_bytes env ep rel_path) (\<lambda>data.
                       act_then (write_bytes env ep (trash_rel ep ts rel_path) data)
                                (delete_file env (ep_side ep) (remote_path ep rel_path))))
                    (\<lambda>e. act_ret ())))"

text \<open>\<open>backup_file\<close>: the remote variant logs a failure and does not raise it.\<close>

definition backup_file :: "env \<Rightarrow> endpoint \<Rightarrow> string \<Rightarrow> string \<Rightarrow> unit act" where
  "backup_file env ep rel_path ts =
     (case ep_type ep of
        Local \<Rightarrow>
          act_bind (call_bool env (PathExists (abs_path ep rel_path))) (\<lambda>ex.
            if \<not> ex then act_ret ()
            else act_then (call_unit env (MkParent (abs_path ep (backup_rel ep ts rel_path))))
                   (call_unit env (Copy2 (abs_path ep rel_path)
                                         (abs_path ep (backup_rel ep ts rel_path)))))
      | Ssh \<Rightarrow>
          act_catch
            (act_bind (read_bytes env ep rel_path) (\<lambda>data.
               write_bytes env ep (backup_rel ep ts rel_path) data))
            (\<lambda>e. act_ret ()))"

text \<open>\<open>LocalSyncEngine._handle_delete\<close> of \<open>core/sync_engine.py\<close>, on the target path.\<close>

definition handle_delete :: "env \<Rightarrow> string \<Rightarrow> unit act" where
  "handle_delete env target =
     act_bind (call_bool env (PathExists target)) (\<lambda>ex.
       if ex then call_unit env (Unlink target) else act_ret ())"

section \<open>The two-way runner\<close>

text \<open>The constants of \<open>BidirectionalTaskRunner.__init__\<close> the model uses.\<close>

definition suppress_window :: rat where
  "suppress_window = 2"

definition hash_check_max_size :: nat where
  "hash_check_max_size = 2 * 1024 * 1024"

definition hash_budget_per_scan :: nat where
  "hash_budget_per_scan = 50"

text \<open>\<open>TEXT_EXTENSIONS\<close> of \<open>core/eol_normalizer.py\<close> and \<open>_is_text_path\<close>.\<close>

definition TEXT_EXTENSIONS :: "string list" where
  "TEXT_EXTENSIONS =
     [''.py'', ''.js'', ''.ts'', ''.java'', ''.c'', ''.cpp'', ''.h'', ''.hpp'', ''.cs'', ''.go'',
      ''.rs'', ''.rb'', ''.php'', ''.swift'', ''.kt'', ''.scala'', ''.r'', ''.m'', ''.mm'',
      ''.json'', ''.yaml'', ''.yml'', ''.xml'', ''.toml'', ''.ini'', ''.cfg'', ''.conf'',
      ''.md'', ''.markdown'', ''.rst'', ''.txt'', ''.html'', ''.htm'', ''.css'', ''.scss'',
      ''.sass'', ''.less'',
      ''.sh'', ''.bash'', ''.zsh'', ''.bat'', ''.cmd'', ''.ps1'',
      ''.sql'', ''.csv'', ''.tsv'',
      ''.gitignore'', ''.gitattributes'', ''.editorconfig'', ''.env'']"

definition is_text_path :: "string \<Rightarrow> bool" where
  "is_text_path rel =
     (if lower (path_suffix rel) \<in> set TEXT_EXTENSIONS then True
      else path_name rel \<in> set [''Makefile'', ''Dockerfile'', ''Jenkinsfile'', ''README'', ''LICENSE''])"

text \<open>
  \<open>_is_suppressed\<close> and \<open>_mark_suppressed\<close>. The clock is read only when an entry
  exists; an entry in the past is removed.
\<close>

definition is_suppressed :: "env \<Rightarrow> side \<Rightarrow> string \<Rightarrow> bool act" where
  "is_suppressed env sd rel =
     (\<lambda>r. case suppress r sd rel of
             None \<Rightarrow> act_ret False r
           | Some ts \<Rightarrow>
               if ts = 0 then act_ret False r
               else act_bind (time_time env) (\<lambda>t.
                      if t > ts
                      then act_then
                             (act_modify (\<lambda>r'. r'\<lparr>suppress := (suppress r')(sd := (suppress r' sd)(rel := None))\<rparr>))
                             (act_ret False)
                      else act_ret True) r)"

definition mark_suppressed :: "env \<Rightarrow> side \<Rightarrow> string \<Rightarrow> unit act" where
  "mark_suppressed env sd rel =
     act_bind (time_time env) (\<lambda>t.
       act_modify (\<lambda>r. record_event (Suppressed sd rel)
         (r\<lparr>suppress := (suppress r)(sd := (suppress r sd)(rel \<mapsto> t + suppress_window))\<rparr>)))"

text \<open>The state \<open>_mark_suppressed\<close> leaves: the clock was read and the entry set.\<close>

definition marked :: "env \<Rightarrow> side \<Rightarrow> string \<Rightarrow> runner \<Rightarrow> runner" where
  "marked env sd rel r =
     record_event (Suppressed sd rel)
       ((record_event (Called TimeTime) r)
          \<lparr>suppress := (suppress r)(sd := (suppress r sd)(rel \<mapsto> ret_time env (trace r) + suppress_window))\<rparr>)"

text \<open>
  \<open>self._state_cache[rel_path] = state\<close> followed by \<open>self._save_state(rel_path, state)\<close>,
  and \<open>create_log\<close>.
\<close>

definition store_state :: "string \<Rightarrow> file_state \<Rightarrow> runner \<Rightarrow> runner" where
  "store_state rel st r =
     r\<lparr>state_cache := dict_put rel st (state_cache r), db_rows := (db_rows r)(rel \<mapsto> st)\<rparr>"

definition create_log :: "log_entry \<Rightarrow> runner \<Rightarrow> runner" where
  "create_log entry r = r\<lparr>sync_logs := sync_logs r @ [entry]\<rparr>"

text \<open>
  A row changed through the dict object the cache holds, with neither the cache
  assignment nor \<open>_save_state\<close>: the cache sees the change when it holds the row, the
  database does not.
\<close>

definition mutate_cached :: "string \<Rightarrow> file_state \<Rightarrow> runner \<Rightarrow> runner" where
  "mutate_cached rel st r =
     (case dict_get (state_cache r) rel of
        None \<Rightarrow> r
      | Some old \<Rightarrow> r\<lparr>state_cache := dict_put rel st (state_cache r)\<rparr>)"

text \<open>\<open>_reconcile\<close>: the path joins the batch queue once.\<close>

definition reconcile :: "string \<Rightarrow> runner \<Rightarrow> runner" where
  "reconcile rel r =
     (if \<not> init_done r then r
      else if rel \<in> set (batch_queue r) then r
      else r\<lparr>batch_queue := batch_queue r @ [rel]\<rparr>)"

text \<open>\<open>_consume_hash_budget\<close>: no budget at all always allows.\<close>

definition consume_hash_budget :: "nat option \<Rightarrow> nat \<Rightarrow> bool \<times> nat option" where
  "consume_hash_budget budget units =
     (case budget of
        None \<Rightarrow> (True, None)
      | Some remain \<Rightarrow> if remain < units then (False, Some remain)
                      else (True, Some (remain - units)))"

text \<open>
  \<open>_compute_hash\<close>: every exception becomes \<open>None\<close>. \<open>_hash_file\<close> reads the file in
  chunks and hashes them, which is the hash of the whole content.
\<close>

definition compute_hash :: "env \<Rightarrow> task_config \<Rightarrow> endpoint \<Rightarrow> string \<Rightarrow> string option act" where
  "compute_hash env cfg ep rel =
     act_catch
       (case ep_type ep of
          Local \<Rightarrow>
            act_bind (call_bool env (PathExists (abs_path ep rel))) (\<lambda>ex.
              if \<not> ex then act_ret None
              else if eol_normalize cfg = ''keep'' \<or> \<not> is_text_path rel then
                act_bind (call_bytes env (ReadFile (abs_path ep rel))) (\<lambda>content.
                  act_ret (Some (hexdigest env content)))
              else
                act_bind (call_bytes env (ReadFile (abs_path ep rel))) (\<lambda>content.
                  act_ret (Some (hexdigest env (normalize_bytes content (eol_normalize cfg))))))
        | Ssh \<Rightarrow>
            act_bind (read_bytes env ep rel) (\<lambda>content.
              act_ret (Some (hexdigest env
                (if eol_normalize cfg \<noteq> ''keep'' \<and> is_text_path rel
                 then normalize_bytes content (eol_normalize cfg) else content)))))
       (\<lambda>e. act_ret None)"

text \<open>The three assignments that record an observation of a present file.\<close>

definition observed :: "side \<Rightarrow> meta \<Rightarrow> datetime \<Rightarrow> file_state \<Rightarrow> file_state" where
  "observed sd m seen st = set_seen sd (Some seen) (set_deleted sd False (set_meta sd m st))"

definition tombstoned :: "side \<Rightarrow> datetime \<Rightarrow> file_state \<Rightarrow> file_state" where
  "tombstoned sd seen st = set_seen sd (Some seen) (set_deleted sd True (set_meta sd empty_meta st))"

text \<open>\<open>(meta or {}).get('size') or old_meta.get('size') or 0\<close>.\<close>

definition pick_size :: "meta option \<Rightarrow> meta \<Rightarrow> nat" where
  "pick_size m old_meta =
     (case msize (meta_or_empty m) of
        Some n \<Rightarrow> if n \<noteq> 0 then n else (case msize old_meta of Some k \<Rightarrow> k | None \<Rightarrow> 0)
      | None \<Rightarrow> (case msize old_meta of Some k \<Rightarrow> k | None \<Rightarrow> 0))"

text \<open>
  \<open>_handle_meta_change\<close>. The hash budget, a mutable dict in the source, is passed in
  and returned. \<open>handle_meta_change_with\<close> is the body under the lock, for the row
  read from the cache. In the branch for unchanged meta every path ends in \<open>return\<close>:
  where the two hashes differ the row is changed through the cached dict only, and
  neither saved nor queued.
\<close>

definition handle_meta_change_with ::
  "env \<Rightarrow> task_config \<Rightarrow> side \<Rightarrow> string \<Rightarrow> meta option \<Rightarrow> bool \<Rightarrow> datetime \<Rightarrow> nat option
     \<Rightarrow> file_state \<Rightarrow> nat option act" where
  "handle_meta_change_with env cfg sd rel m deleted seen budget state =
     (let ep = endpoints cfg sd
      in
        if deleted then
          (if deleted_of sd state \<and> \<not> meta_truthy (meta_of sd state) then act_ret budget
           else act_then
                  (act_modify (\<lambda>r. reconcile rel (store_state rel (tombstoned sd seen state) r)))
                  (act_ret budget))
        else if meta_changed (meta_of sd state) m then
          act_bind (compute_hash env cfg ep rel) (\<lambda>new_hash.
            let m' = (if str_truthy new_hash then (meta_or_empty m)\<lparr>mhash := new_hash\<rparr>
                      else meta_or_empty m);
                old_hash = mhash (meta_of sd state)
            in if str_truthy old_hash \<and> str_truthy new_hash \<and> old_hash = new_hash
               then act_then (act_modify (store_state rel (observed sd m' seen state)))
                             (act_ret budget)
               else act_then (act_modify (\<lambda>r. reconcile rel
                                 (store_state rel (observed sd m' seen state) r)))
                             (act_ret budget))
        else if ep_type ep = Ssh then
          (let old_meta = meta_of sd state;
               other = other_side sd;
               other_ep = endpoints cfg other;
               other_meta = meta_of other state;
               other_deleted = deleted_of other state;
               sz = pick_size m old_meta
           in if \<not> other_deleted \<and> meta_truthy other_meta \<and> sz \<noteq> 0
                 \<and> sz \<le> hash_check_max_size
              then
                (case consume_hash_budget budget 2 of
                   (False, budget') \<Rightarrow> act_ret budget'
                 | (True, budget') \<Rightarrow>
                     act_bind (compute_hash env cfg ep rel) (\<lambda>remote_hash.
                     act_bind (compute_hash env cfg other_ep rel) (\<lambda>local_hash.
                       if str_truthy remote_hash \<and> str_truthy local_hash
                          \<and> remote_hash \<noteq> local_hash
                       then act_then
                              (act_modify (mutate_cached rel
                                 (observed sd ((meta_or_empty m)\<lparr>mhash := remote_hash\<rparr>) seen state)))
                              (act_ret budget')
                       else if \<not> str_truthy (mhash old_meta) \<and> str_truthy remote_hash
                               \<and> fst (consume_hash_budget budget' 0)
                       then act_then
                              (act_modify (store_state rel
                                 (set_meta sd (old_meta\<lparr>mhash := remote_hash\<rparr>) state)))
                              (act_ret (snd (consume_hash_budget budget' 0)))
                       else act_ret budget')))
              else act_ret budget)
        else act_ret budget)"

definition handle_meta_change ::
  "env \<Rightarrow> task_config \<Rightarrow> side \<Rightarrow> string \<Rightarrow> meta option \<Rightarrow> bool \<Rightarrow> datetime \<Rightarrow> nat option
     \<Rightarrow> nat option act" where
  "handle_meta_change env cfg sd rel m deleted seen budget =
     (\<lambda>r. handle_meta_change_with env cfg sd rel m deleted seen budget (cached_state r rel) r)"

text \<open>\<open>_prepare_sync_task\<close>: the sync decision for one path.\<close>

record sync_task =
  task_winner :: side
  task_loser :: side
  task_rel_path :: string

definition side_changed :: "datetime option \<Rightarrow> datetime option \<Rightarrow> bool" where
  "side_changed seen last_sync =
     (case seen of
        None \<Rightarrow> False
      | Some s \<Rightarrow> (case last_sync of None \<Rightarrow> True | Some l \<Rightarrow> s > l))"

text \<open>
  \<open>state['a_seen_at'] >= state['b_seen_at']\<close>, evaluated only when both sides changed,
  so both times are present.
\<close>

definition seen_ge :: "datetime option \<Rightarrow> datetime option \<Rightarrow> bool" where
  "seen_ge a b = (case (a, b) of (Some x, Some y) \<Rightarrow> x \<ge> y | _ \<Rightarrow> False)"

definition prepare_sync_task :: "runner \<Rightarrow> string \<Rightarrow> sync_task option" where
  "prepare_sync_task r rel =
     (if \<not> init_done r then None
      else case dict_get (state_cache r) rel of
        None \<Rightarrow> None
      | Some state \<Rightarrow>
          let last_sync = last_sync_at state;
              a_changed = side_changed (a_seen_at state) last_sync;
              b_changed = side_changed (b_seen_at state) last_sync
          in if \<not> a_changed \<and> \<not> b_changed then None
             else
               let w = (if a_changed \<and> b_changed
                        then (if seen_ge (a_seen_at state) (b_seen_at state) then A else B)
                        else if a_changed then A
                        else B)
               in Some \<lparr>task_winner = w, task_loser = (if w = A then B else A),
                         task_rel_path = rel\<rparr>)"

text \<open>
  \<open>_copy_between\<close>: by the kinds of the two endpoints; text files are read,
  normalised and written unless the policy is \<open>keep\<close>.
\<close>

definition copy_between :: "env \<Rightarrow> task_config \<Rightarrow> endpoint \<Rightarrow> endpoint \<Rightarrow> string \<Rightarrow> unit act" where
  "copy_between env cfg src_ep dst_ep rel =
     (case (ep_type src_ep, ep_type dst_ep) of
        (Local, Local) \<Rightarrow>
          if eol_normalize cfg = ''keep'' \<or> \<not> is_text_path rel
          then copy_file env dst_ep (abs_path src_ep rel) rel
          else act_bind (read_bytes env src_ep rel) (\<lambda>content.
                 write_bytes env dst_ep rel (normalize_bytes content (eol_normalize cfg)))
      | (Local, Ssh) \<Rightarrow>
          if eol_normalize cfg = ''keep'' \<or> \<not> is_text_path rel
          then upload_file env dst_ep (abs_path src_ep rel) rel
          else act_bind (read_bytes env src_ep rel) (\<lambda>content.
                 write_bytes env dst_ep rel (normalize_bytes content (eol_normalize cfg)))
      | (Ssh, Local) \<Rightarrow>
          if eol_normalize cfg = ''keep'' \<or> \<not> is_text_path rel
          then act_then (call_unit env (MkParent (abs_path dst_ep rel)))
                        (download_file env src_ep rel (abs_path dst_ep rel))
          else act_bind (read_bytes env src_ep rel) (\<lambda>content.
                 write_bytes env dst_ep rel (normalize_bytes content (eol_normalize cfg)))
      | (Ssh, Ssh) \<Rightarrow>
          act_bind (read_bytes env src_ep rel) (\<lambda>content.
            write_bytes env dst_ep rel
              (if eol_normalize cfg \<noteq> ''keep'' \<and> is_text_path rel
               then normalize_bytes content (eol_normalize cfg) else content)))"

text \<open>
  \<open>_sync_side\<close>, in parts. \<open>refresh_loser_meta\<close> is the re-stat of the loser after a
  copy: its meta, with the hash when one can be computed.
\<close>

definition refresh_loser_meta ::
  "env \<Rightarrow> task_config \<Rightarrow> endpoint \<Rightarrow> string \<Rightarrow> (meta \<times> bool) act" where
  "refresh_loser_meta env cfg loser_ep rel =
     act_bind (get_meta env loser_ep rel) (\<lambda>got.
       let new_loser_meta = meta_or_empty got
       in if meta_truthy new_loser_meta
          then act_bind (compute_hash env cfg loser_ep rel) (\<lambda>new_hash.
                 act_ret (if str_truthy new_hash
                          then new_loser_meta\<lparr>mhash := new_hash\<rparr>
                          else new_loser_meta, False))
          else act_ret (new_loser_meta, False))"

text \<open>
  The backup step: the loser's file is copied to the backup directory when the loser
  holds the file and its meta differs from the winner's.
\<close>

definition backup_if_differs ::
  "env \<Rightarrow> task_config \<Rightarrow> side \<Rightarrow> side \<Rightarrow> string \<Rightarrow> string \<Rightarrow> file_state \<Rightarrow> unit act" where
  "backup_if_differs env cfg w l rel ts state =
     (if meta_truthy (meta_of l state) \<and> \<not> deleted_of l state
      then (if meta_changed (meta_of l state) (Some (meta_of w state))
            then backup_file env (endpoints cfg l) rel ts else act_ret ())
      else act_ret ())"

text \<open>
  \<open>sync_transfer\<close> is the first part of the \<open>try\<close> block: the file operations on the
  loser, the suppression mark, and the loser's fresh meta.
\<close>

definition sync_transfer ::
  "env \<Rightarrow> task_config \<Rightarrow> side \<Rightarrow> side \<Rightarrow> string \<Rightarrow> string \<Rightarrow> file_state \<Rightarrow> (meta \<times> bool) act" where
  "sync_transfer env cfg w l rel ts state =
     (let winner_deleted = deleted_of w state;
          loser_meta = meta_of l state;
          loser_deleted = deleted_of l state;
          winner_ep = endpoints cfg w;
          loser_ep = endpoints cfg l
      in
        if winner_deleted then
          act_then
            (if \<not> loser_deleted \<and> meta_truthy loser_meta
             then act_then (move_to_trash env loser_ep rel ts) (mark_suppressed env l rel)
             else act_ret ())
            (act_ret (empty_meta, True))
        else
          act_then (backup_if_differs env cfg w l rel ts state)
          (act_then (copy_between env cfg winner_ep loser_ep rel)
          (act_then (mark_suppressed env l rel)
                    (refresh_loser_meta env cfg loser_ep rel))))"

text \<open>
  \<open>sync_commit\<close> is the rest of the \<open>try\<close> block: the row is read again, the loser's
  side, \<open>last_winner\<close> and \<open>last_sync_at\<close> are set, the row is stored, and a success
  entry is logged.
\<close>

definition sync_commit ::
  "side \<Rightarrow> side \<Rightarrow> string \<Rightarrow> datetime \<Rightarrow> bool \<Rightarrow> meta \<times> bool \<Rightarrow> unit act" where
  "sync_commit w l rel now winner_deleted res =
     act_modify (\<lambda>r.
       let state = cached_state r rel;
           state' = (set_seen l (Some now) (set_deleted l (snd res) (set_meta l (fst res) state)))
                      \<lparr>last_winner := Some w, last_sync_at := Some now\<rparr>
       in create_log
            \<lparr>event_type = (if winner_deleted then ''deleted'' else ''modified''),
             file_path = rel, dest_path = None, status = ''success'', error_message = None\<rparr>
            (store_state rel state' r))"

definition failed_entry :: "string \<Rightarrow> exn \<Rightarrow> log_entry" where
  "failed_entry rel e =
     \<lparr>event_type = ''modified'', file_path = rel, dest_path = None, status = ''failed'',
      error_message = Some (exn_message e)\<rparr>"

text \<open>
  The whole method: the row is read, the clock is read, and the \<open>try\<close> block runs; its
  handler logs a failed entry. The optional \<open>stats\<close> counters are left out.
\<close>

definition sync_side :: "env \<Rightarrow> task_config \<Rightarrow> side \<Rightarrow> side \<Rightarrow> string \<Rightarrow> unit act" where
  "sync_side env cfg w l rel =
     (\<lambda>r.
        let state = cached_state r rel
        in act_bind (datetime_now env) (\<lambda>now.
             act_catch
               (act_bind (sync_transfer env cfg w l rel (strftime env now) state)
                  (sync_commit w l rel now (deleted_of w state)))
               (\<lambda>e. act_modify (create_log (failed_entry rel e)))) r)"

text \<open>
  \<open>list_files()\<close> is \<open>dict(self.iter_files())\<close>: the pairs the endpoint yields after its
  own filtering, or the exception the enumeration ends with.
\<close>

definition list_files :: "env \<Rightarrow> endpoint \<Rightarrow> (string \<times> meta) list act" where
  "list_files env ep =
     (\<lambda>r. case ret_files env (trace r) (ListFiles (ep_side ep)) of
             (items, None) \<Rightarrow> (Inr (dict_of items), record_event (Called (ListFiles (ep_side ep))) r)
           | (items, Some e) \<Rightarrow> (Inl e, record_event (Called (ListFiles (ep_side ep))) r))"

text \<open>The three rows \<open>_initial_sync\<close> seeds.\<close>

definition seed_a_only :: "meta \<Rightarrow> datetime \<Rightarrow> file_state" where
  "seed_a_only am now =
     \<lparr>a_meta = am, b_meta = empty_meta, a_deleted = False, b_deleted = True,
      a_seen_at = Some now, b_seen_at = None, last_winner = None, last_sync_at = None\<rparr>"

definition seed_b_only :: "meta \<Rightarrow> datetime \<Rightarrow> file_state" where
  "seed_b_only bm now =
     \<lparr>a_meta = empty_meta, b_meta = bm, a_deleted = True, b_deleted = False,
      a_seen_at = None, b_seen_at = Some now, last_winner = None, last_sync_at = None\<rparr>"

definition seed_both :: "meta \<Rightarrow> meta \<Rightarrow> datetime \<Rightarrow> file_state" where
  "seed_both am bm now =
     \<lparr>a_meta = am, b_meta = bm, a_deleted = False, b_deleted = False,
      a_seen_at = Some now, b_seen_at = Some now, last_winner = None, last_sync_at = Some now\<rparr>"

text \<open>The body of the loop of \<open>_initial_sync\<close>, for one path.\<close>

definition initial_sync_path ::
  "env \<Rightarrow> task_config \<Rightarrow> (string \<times> meta) list \<Rightarrow> (string \<times> meta) list \<Rightarrow> datetime \<Rightarrow> string
     \<Rightarrow> unit act" where
  "initial_sync_path env cfg a_files b_files now rel =
     (let am = dict_get a_files rel;
          bm = dict_get b_files rel
      in if opt_meta_truthy am \<and> \<not> opt_meta_truthy bm then
           act_then (act_modify (store_state rel (seed_a_only (meta_or_empty am) now)))
                    (sync_side env cfg A B rel)
         else if opt_meta_truthy bm \<and> \<not> opt_meta_truthy am then
           act_then (act_modify (store_state rel (seed_b_only (meta_or_empty bm) now)))
                    (sync_side env cfg B A rel)
         else if opt_meta_truthy am \<and> opt_meta_truthy bm then
           act_modify (store_state rel (seed_both (meta_or_empty am) (meta_or_empty bm) now))
         else act_ret ())"

fun initial_sync_loop ::
  "env \<Rightarrow> task_config \<Rightarrow> (string \<times> meta) list \<Rightarrow> (string \<times> meta) list \<Rightarrow> datetime
     \<Rightarrow> string list \<Rightarrow> unit act" where
  "initial_sync_loop env cfg a_files b_files now [] = act_ret ()"
| "initial_sync_loop env cfg a_files b_files now (rel # rest) =
     (\<lambda>r. if stop_event r then act_ret () r
          else act_then (initial_sync_path env cfg a_files b_files now rel)
                        (initial_sync_loop env cfg a_files b_files now rest) r)"

text \<open>
  \<open>_initial_sync\<close>. The paths are the union of the two key sets; Python fixes no
  order for a set, and the model visits them in the order of the two listings.
\<close>

definition initial_sync :: "env \<Rightarrow> task_config \<Rightarrow> unit act" where
  "initial_sync env cfg =
     act_bind (list_files env (endpoints cfg A)) (\<lambda>a_files.
       (\<lambda>r. if stop_event r then act_ret () r
            else act_bind (list_files env (endpoints cfg B)) (\<lambda>b_files.
                   act_bind (datetime_now env) (\<lambda>now.
                     initial_sync_loop env cfg a_files b_files now
                       (remdups (map fst a_files @ map fst b_files)))) r))"

text \<open>
  \<open>_scan_endpoint\<close>. \<open>iter_files()\<close> is lazy in the source; the model takes what it
  yields in one call, followed by the exception the iteration ends with, if any.
  The first loop observes every yielded path; it stops early when the stop event is
  set.
\<close>

fun scan_seen ::
  "env \<Rightarrow> task_config \<Rightarrow> side \<Rightarrow> datetime \<Rightarrow> (string \<times> meta) list \<Rightarrow> nat \<Rightarrow> nat option
     \<Rightarrow> (bool \<times> nat \<times> nat option) act" where
  "scan_seen env cfg sd now [] scanned budget = act_ret (False, scanned, budget)"
| "scan_seen env cfg sd now ((rel, m) # rest) scanned budget =
     (\<lambda>r. if stop_event r then act_ret (True, scanned, budget) r
          else act_bind (handle_meta_change env cfg sd rel (Some m) False now budget)
                 (\<lambda>budget'. scan_seen env cfg sd now rest (Suc scanned) budget') r)"

text \<open>
  Evidence that a path has been on a side: a meta of that side, its tombstone, or a
  time it was seen. The second loop of the scan skips a missing path that has none
  (its test is written out below as the source has it).
\<close>

definition side_evidence :: "side \<Rightarrow> file_state \<Rightarrow> bool" where
  "side_evidence sd state =
     (meta_truthy (meta_of sd state) \<or> deleted_of sd state \<or> seen_of sd state \<noteq> None)"

fun scan_missing ::
  "env \<Rightarrow> task_config \<Rightarrow> side \<Rightarrow> datetime \<Rightarrow> (string \<times> file_state) list \<Rightarrow> string list
     \<Rightarrow> nat option \<Rightarrow> unit act" where
  "scan_missing env cfg sd now snapshot [] budget = act_ret ()"
| "scan_missing env cfg sd now snapshot (rel # rest) budget =
     (\<lambda>r. if stop_event r then act_ret () r
          else
            let state = (case dict_get snapshot rel of None \<Rightarrow> empty_state | Some st \<Rightarrow> st)
            in if \<not> meta_truthy (meta_of sd state) \<and> \<not> deleted_of sd state
                  \<and> seen_of sd state = None
               then scan_missing env cfg sd now snapshot rest budget r
               else act_bind (handle_meta_change env cfg sd rel None True now budget)
                      (\<lambda>budget'. scan_missing env cfg sd now snapshot rest budget') r)"

text \<open>
  The paths the scan takes for missing: the keys of the snapshot that were not seen.
  The source iterates over a set; the model keeps the snapshot's order.
\<close>

definition missing_paths :: "(string \<times> file_state) list \<Rightarrow> string list \<Rightarrow> string list" where
  "missing_paths snapshot seen_paths = filter (\<lambda>p. p \<notin> set seen_paths) (map fst snapshot)"

definition scan_endpoint :: "env \<Rightarrow> task_config \<Rightarrow> side \<Rightarrow> (nat \<times> nat) act" where
  "scan_endpoint env cfg sd =
     act_bind (datetime_now env) (\<lambda>now.
       (\<lambda>r.
          let snapshot = state_cache r;
              listing = ret_files env (trace r) (IterFiles sd);
              r1 = record_event (Called (IterFiles sd)) r
          in act_bind (scan_seen env cfg sd now (fst listing) 0 (Some hash_budget_per_scan))
               (\<lambda>(stopped, scanned, budget).
                  if stopped then act_ret (scanned, 0)
                  else case snd listing of
                    Some e \<Rightarrow> act_raise e
                  | None \<Rightarrow>
                      act_then
                        (scan_missing env cfg sd now snapshot
                           (missing_paths snapshot (map fst (fst listing))) budget)
                        (act_ret (scanned,
                           length (remdups (missing_paths snapshot
                                              (map fst (fst listing))))))) r1))"

text \<open>
  \<open>_on_local_event\<close>. \<open>rel_src\<close> is \<open>None\<close> when the source path is not under the
  endpoint's root. \<open>dest\<close> is \<open>None\<close> for an empty \<open>dest_path\<close>, \<open>Some None\<close> when the
  destination is not under the root, and the relative destination otherwise. An
  exception after the suppression test is logged and not raised.
\<close>

definition on_local_event ::
  "env \<Rightarrow> task_config \<Rightarrow> side \<Rightarrow> string \<Rightarrow> string option \<Rightarrow> string option option \<Rightarrow> unit act" where
  "on_local_event env cfg sd ev_type rel_src dest =
     (case rel_src of
        None \<Rightarrow> act_ret ()
      | Some src \<Rightarrow>
          act_bind (is_suppressed env sd src) (\<lambda>sup.
            if sup then act_ret ()
            else
              act_catch
                (if ev_type = ''moved'' \<and> dest \<noteq> None then
                   act_bind (datetime_now env) (\<lambda>now.
                   act_bind (handle_meta_change env cfg sd src None True now None) (\<lambda>_.
                     case dest of
                       Some (Some rel_dest) \<Rightarrow>
                         if rel_dest \<noteq> [] then
                           act_bind (get_meta env (endpoints cfg sd) rel_dest) (\<lambda>m.
                             if opt_meta_truthy m then
                               act_bind (datetime_now env) (\<lambda>now'.
                               act_bind (handle_meta_change env cfg sd rel_dest m False now' None)
                                 (\<lambda>_. act_ret ()))
                             else act_ret ())
                         else act_ret ()
                     | _ \<Rightarrow> act_ret ()))
                 else if ev_type = ''deleted'' then
                   act_bind (datetime_now env) (\<lambda>now.
                   act_bind (handle_meta_change env cfg sd src None True now None)
                     (\<lambda>_. act_ret ()))
                 else
                   act_bind (get_meta env (endpoints cfg sd) src) (\<lambda>m.
                     if opt_meta_truthy m then
                       act_bind (datetime_now env) (\<lambda>now.
                       act_bind (handle_meta_change env cfg sd src m False now None)
                         (\<lambda>_. act_ret ()))
                     else act_ret ()))
                (\<lambda>e. act_ret ())))"

text \<open>\<open>_on_remote_event\<close>: the remote notification stream, for one path.\<close>

definition on_remote_event :: "env \<Rightarrow> task_config \<Rightarrow> side \<Rightarrow> string \<Rightarrow> string \<Rightarrow> unit act" where
  "on_remote_event env cfg sd ev_type rel =
     act_bind (is_suppressed env sd rel) (\<lambda>sup.
       if sup then act_ret ()
       else
         act_catch
           (if ev_type = ''deleted'' then
              act_bind (datetime_now env) (\<lambda>now.
              act_bind (handle_meta_change env cfg sd rel None True now None)
                (\<lambda>_. act_ret ()))
            else
              act_bind (get_meta env (endpoints cfg sd) rel) (\<lambda>m.
                if opt_meta_truthy m then
                  act_bind (datetime_now env) (\<lambda>now.
                  act_bind (handle_meta_change env cfg sd rel m False now None)
                    (\<lambda>_. act_ret ()))
                else act_ret ()))
           (\<lambda>e. act_ret ()))"

section \<open>Concrete scenarios\<close>

text \<open>
  A task with a local endpoint A, and B either local or remote; a few metas and rows;
  and worlds that answer every call in a fixed way. They are the inputs on which the
  theorems below are evaluated.
\<close>

definition ep_a :: endpoint where
  "ep_a = \<lparr>ep_side = A, ep_type = Local, root = ''/srv/a'', exclude_patterns = [''*.pyc''],
           file_extensions = [''.py'', ''.md''], trash_dir = ''.tongbu_trash'',
           backup_dir = ''.tongbu_backup''\<rparr>"

definition ep_b_local :: endpoint where
  "ep_b_local = ep_a\<lparr>ep_side := B, root := ''/srv/b''\<rparr>"

definition ep_b_ssh :: endpoint where
  "ep_b_ssh = ep_a\<lparr>ep_side := B, ep_type := Ssh, root := ''/home/u/b''\<rparr>"

definition cfg_local :: task_config where
  "cfg_local = \<lparr>eol_normalize = ''keep'',
                 endpoints = (\<lambda>sd. case sd of A \<Rightarrow> ep_a | B \<Rightarrow> ep_b_local)\<rparr>"

definition cfg_ssh :: task_config where
  "cfg_ssh = \<lparr>eol_normalize = ''keep'',
               endpoints = (\<lambda>sd. case sd of A \<Rightarrow> ep_a | B \<Rightarrow> ep_b_ssh)\<rparr>"

definition meta_h1 :: meta where
  "meta_h1 = \<lparr>msize = Some 3, mtime = Some 10, mhash = Some ''h1''\<rparr>"

definition meta_h2 :: meta where
  "meta_h2 = \<lparr>msize = Some 3, mtime = Some 10, mhash = Some ''h2''\<rparr>"

definition meta_plain :: meta where
  "meta_plain = \<lparr>msize = Some 4, mtime = Some 10, mhash = None\<rparr>"




definition runner_with :: "(string \<times> file_state) list \<Rightarrow> runner" where
  "runner_with rows =
     \<lparr>state_cache = rows, db_rows = map_of rows, sync_logs = [],
      suppress = (\<lambda>sd. Map.empty), batch_queue = [], init_done = True, stop_event = False,
      trace = []\<rparr>"

text \<open>Both sides seen at time 5 after a sync at time 3: a tie.\<close>

definition row_tie :: file_state where
  "row_tie = \<lparr>a_meta = meta_h1, b_meta = meta_h2, a_deleted = False, b_deleted = False,
              a_seen_at = Some 5, b_seen_at = Some 5, last_winner = None,
              last_sync_at = Some 3\<rparr>"

section \<open>Reading the event record\<close>

text \<open>The calls that write, move or delete a file.\<close>

fun is_mutation :: "io_call \<Rightarrow> bool" where
  "is_mutation (WriteFile p d) = True"
| "is_mutation (Copy2 s d) = True"
| "is_mutation (Move s d) = True"
| "is_mutation (Unlink p) = True"
| "is_mutation (TransferWrite sd p d) = True"
| "is_mutation (TransferUpload sd s d) = True"
| "is_mutation (TransferDownload sd s d) = True"
| "is_mutation (TransferMove sd s d) = True"
| "is_mutation (SftpRemove sd p) = True"
| "is_mutation c = False"

text \<open>
  The order the specification asks for: every write, move or delete in the record
  comes after a mark of the pair \<open>(sd, rel)\<close>. The flag says whether a mark has been
  met.
\<close>

fun spec_marked_before :: "side \<Rightarrow> string \<Rightarrow> bool \<Rightarrow> event list \<Rightarrow> bool" where
  "spec_marked_before sd rel seen [] = True"
| "spec_marked_before sd rel seen (Suppressed s p # evs) =
     spec_marked_before sd rel (seen \<or> (s = sd \<and> p = rel)) evs"
| "spec_marked_before sd rel seen (Called c # evs) =
     ((if is_mutation c then seen else True) \<and> spec_marked_before sd rel seen evs)"

text \<open>The calls that write the file \<open>rel\<close> of an endpoint.\<close>

fun writes_file :: "endpoint \<Rightarrow> string \<Rightarrow> io_call \<Rightarrow> bool" where
  "writes_file ep rel (WriteFile p d) = (p = abs_path ep rel)"
| "writes_file ep rel (Copy2 s d) = (d = abs_path ep rel)"
| "writes_file ep rel (TransferDownload sd s d) = (d = abs_path ep rel)"
| "writes_file ep rel (TransferWrite sd p d) = (sd = ep_side ep \<and> p = remote_path ep rel)"
| "writes_file ep rel (TransferUpload sd s d) = (sd = ep_side ep \<and> d = remote_path ep rel)"
| "writes_file ep rel c = False"

fun event_writes_file :: "endpoint \<Rightarrow> string \<Rightarrow> event \<Rightarrow> bool" where
  "event_writes_file ep rel (Called c) = writes_file ep rel c"
| "event_writes_file ep rel (Suppressed sd p) = False"

section \<open>Worlds and rows for the concrete scenarios\<close>

text \<open>
  \<open>env_ok\<close>: every call returns; files exist, have size 3 and hold three bytes.
  \<open>env_down\<close>: every call raises. \<open>env_copy_fails\<close>: \<open>shutil.copy2\<close> raises.
  \<open>env_absent\<close>: no path exists and \<open>sftp.remove\<close> finds no file.
\<close>

definition env_ok :: env where
  "env_ok = \<lparr>ret_unit = (\<lambda>tr c. None), ret_bool = (\<lambda>tr c. Inr True),
             ret_stat = (\<lambda>tr c. Inr (3, 10)), ret_bytes = (\<lambda>tr c. Inr [1, 2, 3]),
             ret_files = (\<lambda>tr c. ([], None)), ret_datetime = (\<lambda>tr. 100),
             ret_time = (\<lambda>tr. 50), strftime = (\<lambda>t. ''20250101_000000''),
             hexdigest = (\<lambda>b. ''h1'')\<rparr>"

definition lost :: exn where
  "lost = Exn OtherError ''connection lost''"

definition env_down :: env where
  "env_down = env_ok\<lparr>ret_unit := (\<lambda>tr c. Some lost), ret_bool := (\<lambda>tr c. Inl lost),
                      ret_stat := (\<lambda>tr c. Inl lost), ret_bytes := (\<lambda>tr c. Inl lost)\<rparr>"

definition env_copy_fails :: env where
  "env_copy_fails =
     env_ok\<lparr>ret_unit := (\<lambda>tr c. case c of Copy2 src dst \<Rightarrow> Some (Exn OtherError ''disk full'')
                                   | _ \<Rightarrow> None)\<rparr>"

definition env_absent :: env where
  "env_absent =
     env_ok\<lparr>ret_bool := (\<lambda>tr c. Inr False),
            ret_unit := (\<lambda>tr c. case c of
                                   SftpRemove sd p \<Rightarrow> Some (Exn FileNotFoundError ''No such file'')
                                 | _ \<Rightarrow> None)\<rparr>"

text \<open>\<open>env_read_fails\<close>: reading a remote file raises; every other call returns.\<close>

definition env_read_fails :: env where
  "env_read_fails =
     env_ok\<lparr>ret_bytes := (\<lambda>tr c. case c of TransferRead sd p \<Rightarrow> Inl lost
                                    | _ \<Rightarrow> Inr [1, 2, 3])\<rparr>"

text \<open>
  A row whose side A is deleted and newer than the last sync while B holds the file;
  and a row whose two sides hold the file with the same hash, A newer.
\<close>

definition row_a_deleted :: file_state where
  "row_a_deleted =
     \<lparr>a_meta = empty_meta, b_meta = meta_h1, a_deleted = True, b_deleted = False,
      a_seen_at = Some 5, b_seen_at = Some 2, last_winner = None, last_sync_at = Some 3\<rparr>"

definition row_same :: file_state where
  "row_same =
     \<lparr>a_meta = meta_h1, b_meta = meta_h1, a_deleted = False, b_deleted = False,
      a_seen_at = Some 5, b_seen_at = Some 2, last_winner = None, last_sync_at = Some 3\<rparr>"

text \<open>A row whose two sides hold the file with different hashes, A newer.\<close>

definition row_differs :: file_state where
  "row_differs =
     \<lparr>a_meta = meta_h1, b_meta = meta_h2, a_deleted = False, b_deleted = False,
      a_seen_at = Some 5, b_seen_at = Some 2, last_winner = None, last_sync_at = Some 3\<rparr>"

section \<open>Frame conditions\<close>

text \<open>
  An action preserves an observation of the state when the observation reads the
  same before and after, whatever the outcome. Observations that do not look at the
  event record, or at the suppression marks, are preserved by the calls on the world
  and by marking.
\<close>

definition preserves :: "(runner \<Rightarrow> 'b) \<Rightarrow> 'a act \<Rightarrow> bool" where
  "preserves f m = (\<forall>r. f (snd (m r)) = f r)"

definition trace_blind :: "(runner \<Rightarrow> 'b) \<Rightarrow> bool" where
  "trace_blind f = (\<forall>r evs. f (r\<lparr>trace := evs\<rparr>) = f r)"

definition suppress_blind :: "(runner \<Rightarrow> 'b) \<Rightarrow> bool" where
  "suppress_blind f = (\<forall>r s. f (r\<lparr>suppress := s\<rparr>) = f r)"

text \<open>
  What a scan may change about a path \<open>p\<close>: its cached row, its stored row, and
  whether it is queued. Work on another path changes none of them.
\<close>

definition row_view :: "string \<Rightarrow> runner \<Rightarrow> file_state option \<times> file_state option \<times> bool" where
  "row_view p r = (dict_get (state_cache r) p, db_rows r p, p \<in> set (batch_queue r))"



text \<open>
  Two rows for the scan of side B: one known from side A only, one that B has held.
\<close>

definition row_only_a :: file_state where
  "row_only_a =
     \<lparr>a_meta = meta_h1, b_meta = empty_meta, a_deleted = False, b_deleted = False,
      a_seen_at = Some 5, b_seen_at = None, last_winner = None, last_sync_at = None\<rparr>"

definition row_b_known :: file_state where
  "row_b_known =
     \<lparr>a_meta = meta_h1, b_meta = meta_h1, a_deleted = False, b_deleted = False,
      a_seen_at = Some 2, b_seen_at = Some 2, last_winner = Some A, last_sync_at = Some 3\<rparr>"

definition scan_rows :: "(string \<times> file_state) list" where
  "scan_rows = [(''only_a.txt'', row_only_a), (''was_b.txt'', row_b_known)]"

section \<open>Properties of end-of-line normalisation\<close>

lemma replace_single:
  "replace [a] new s = concat (map (\<lambda>c. if c = a then new else [c]) s)"
  by (induction s) auto

lemma replace_absent_single:
  "a \<notin> set s \<Longrightarrow> replace (a # rest) new s = s"
  by (induction s) auto

lemma CR_neq_LF: "CR \<noteq> LF"
  by (simp add: CR_def LF_def)

lemma no_CR_after_fold:
  "CR \<notin> set (replace [CR] [LF] s)"
  by (induction s) (auto simp: CR_neq_LF)

lemma crlf_expand_fold:
  "CR \<notin> set s \<Longrightarrow> replace [CR, LF] [LF] (replace [LF] [CR, LF] s) = s"
  by (induction s) (auto simp: CR_neq_LF)

lemma no_CR_fold_twice:
  "CR \<notin> set s \<Longrightarrow> replace [CR] [LF] (replace [CR, LF] [LF] s) = s"
  by (simp add: replace_absent_single)

lemma to_lf_of_crlf:
  assumes "CR \<notin> set s"
  shows "replace [CR] [LF] (replace [CR, LF] [LF] (replace [LF] [CR, LF] s)) = s"
proof -
  have "replace [CR, LF] [LF] (replace [LF] [CR, LF] s) = s"
    using assms by (rule crlf_expand_fold)
  then show ?thesis
    using assms by (simp add: replace_absent_single)
qed

lemma normalize_steps_idem:
  fixes x :: bytes
  defines "l \<equiv> replace [CR] [LF] (replace [CR, LF] [LF] x)"
  shows "replace [CR] [LF] (replace [CR, LF] [LF] l) = l"
    and "replace [CR] [LF] (replace [CR, LF] [LF] (replace [LF] [CR, LF] l)) = l"
proof -
  have nocr: "CR \<notin> set l"
    unfolding l_def by (rule no_CR_after_fold)
  show "replace [CR] [LF] (replace [CR, LF] [LF] l) = l"
    using nocr by (rule no_CR_fold_twice)
  show "replace [CR] [LF] (replace [CR, LF] [LF] (replace [LF] [CR, LF] l)) = l"
    using nocr by (rule to_lf_of_crlf)
qed

text \<open>
  Claim C7. End-of-line normalisation is idempotent: for every byte string and every
  policy string (\<open>lf\<close>, \<open>crlf\<close>, \<open>keep\<close>, and any other value, which the code treats
  as \<open>lf\<close>), normalising the normalised bytes again gives the same bytes. This holds
  for \<open>_normalize_bytes\<close> and for \<open>normalize_line_endings\<close>.
\<close>

theorem normalize_idempotent:
  "normalize_bytes (normalize_bytes x p) p = normalize_bytes x p \<and>
   normalize_line_endings (normalize_line_endings x p) p = normalize_line_endings x p"
  using normalize_steps_idem [of x]
  by (simp add: normalize_bytes_def normalize_line_endings_def Let_def)

section \<open>The path filter\<close>
































section \<open>The meta comparison\<close>

text \<open>
  Claim C5, as stated, fails where both metas are absent: the specification's rule
  counts absence on either side as a change, and the code answers that nothing
  changed.
\<close>

theorem meta_changed_both_absent_counterexample:
  "spec_meta_changed empty_meta None \<and> \<not> meta_changed empty_meta None"
  by (simp add: spec_meta_changed_def meta_changed_def meta_truthy_def opt_meta_truthy_def)

text \<open>
  Claim C5, amended. When both metas are absent \<open>meta_changed\<close> is false; in every other
  case it is the specification's decision: absence on one side counts as changed,
  two metas that both carry a hash are compared by hash, and otherwise by size and
  modification time.
\<close>

theorem meta_changed_decision:
  "meta_changed old_meta new_meta =
     (if \<not> meta_truthy old_meta \<and> \<not> opt_meta_truthy new_meta then False
      else spec_meta_changed old_meta new_meta)"
  by (auto simp: meta_changed_def spec_meta_changed_def Let_def)

text \<open>
  Two hashes that differ are a change although size and time agree; the same meta is
  no change; a meta without a hash is compared by size; one absent meta is a change;
  two empty metas are none.
\<close>

theorem meta_changed_decision_witness:
  "meta_changed meta_h1 (Some meta_h2) \<and> \<not> meta_changed meta_h1 (Some meta_h1) \<and>
   meta_changed meta_h1 (Some meta_plain) \<and> meta_changed meta_h1 None \<and>
   \<not> meta_changed empty_meta (Some empty_meta)"
  using meta_changed_decision [of meta_h1 "Some meta_h2"]
    meta_changed_decision [of meta_h1 "Some meta_h1"]
    meta_changed_decision [of meta_h1 "Some meta_plain"]
    meta_changed_decision [of meta_h1 None]
    meta_changed_decision [of empty_meta "Some empty_meta"]
  by (simp add: spec_meta_changed_def meta_truthy_def opt_meta_truthy_def str_truthy_def
      meta_or_empty_def meta_h1_def meta_h2_def meta_plain_def empty_meta_def)

section \<open>The sync decision\<close>

text \<open>
  Claim C3. For a cached row of an initialised runner in which both sides have been
  seen later than the last sync (or no sync has happened yet), the decision names as
  winner the side seen last, and side A when both were seen at the same time.
\<close>

theorem last_writer_wins:
  assumes "init_done r"
    and "dict_get (state_cache r) rel = Some state"
    and "a_seen_at state = Some a" and "b_seen_at state = Some b"
    and "case last_sync_at state of None \<Rightarrow> True | Some l \<Rightarrow> l < a \<and> l < b"
  shows "prepare_sync_task r rel =
           Some \<lparr>task_winner = (if b \<le> a then A else B),
                 task_loser = (if b \<le> a then B else A), task_rel_path = rel\<rparr>"
  using assms
  by (auto simp: prepare_sync_task_def side_changed_def seen_ge_def Let_def split: option.splits)

text \<open>A tie: both sides seen at 5 after a sync at 3; side A wins.\<close>

theorem last_writer_wins_witness:
  "init_done (runner_with [(''f.txt'', row_tie)]) \<and>
   dict_get (state_cache (runner_with [(''f.txt'', row_tie)])) ''f.txt'' = Some row_tie \<and>
   a_seen_at row_tie = Some 5 \<and> b_seen_at row_tie = Some 5 \<and> last_sync_at row_tie = Some 3 \<and>
   prepare_sync_task (runner_with [(''f.txt'', row_tie)]) ''f.txt'' =
     Some \<lparr>task_winner = A, task_loser = B, task_rel_path = ''f.txt''\<rparr>"
proof -
  have h1: "init_done (runner_with [(''f.txt'', row_tie)])"
    by (simp add: runner_with_def)
  have h2: "dict_get (state_cache (runner_with [(''f.txt'', row_tie)])) ''f.txt'' = Some row_tie"
    by (simp add: runner_with_def dict_get_def)
  have h3: "a_seen_at row_tie = Some 5" and h4: "b_seen_at row_tie = Some 5"
    and h5: "last_sync_at row_tie = Some 3"
    by (simp_all add: row_tie_def)
  have h6: "case last_sync_at row_tie of None \<Rightarrow> True | Some l \<Rightarrow> l < 5 \<and> l < 5"
    by (simp add: row_tie_def)
  from last_writer_wins [OF h1 h2 h3 h4 h6] h1 h2 h3 h4 h5 show ?thesis
    by simp
qed

section \<open>What the endpoint operations leave alone\<close>

lemma preservesD: "preserves f m \<Longrightarrow> f (snd (m r)) = f r"
  by (simp add: preserves_def)

lemma preservesD2: "preserves f m \<Longrightarrow> m r = (res, r') \<Longrightarrow> f r' = f r"
  by (auto simp: preserves_def dest: spec [of _ r])

lemma preserves_ret: "preserves f (act_ret x)"
  by (simp add: preserves_def act_ret_def)

lemma preserves_raise: "preserves f (act_raise e)"
  by (simp add: preserves_def act_raise_def)

lemma preserves_bind:
  assumes "preserves f m" and "\<And>x. preserves f (g x)"
  shows "preserves f (act_bind m g)"
  unfolding preserves_def
proof
  fix r
  show "f (snd (act_bind m g r)) = f r"
  proof (cases "m r")
    case (Pair res r')
    have keep: "f r' = f r"
      using assms(1) Pair by (rule preservesD2)
    show ?thesis
    proof (cases res)
      case (Inl e)
      then show ?thesis using Pair keep by (simp add: act_bind_def)
    next
      case (Inr x)
      then show ?thesis
        using Pair keep preservesD [OF assms(2), of x r'] by (simp add: act_bind_def)
    qed
  qed
qed

lemma preserves_then:
  "preserves f m \<Longrightarrow> preserves f n \<Longrightarrow> preserves f (act_then m n)"
  by (simp add: act_then_def preserves_bind)

lemma preserves_catch:
  assumes "preserves f m" and "\<And>e. preserves f (h e)"
  shows "preserves f (act_catch m h)"
  unfolding preserves_def
proof
  fix r
  show "f (snd (act_catch m h r)) = f r"
  proof (cases "m r")
    case (Pair res r')
    have keep: "f r' = f r"
      using assms(1) Pair by (rule preservesD2)
    show ?thesis
    proof (cases res)
      case (Inl e)
      then show ?thesis
        using Pair keep preservesD [OF assms(2), of e r'] by (simp add: act_catch_def)
    next
      case (Inr x)
      then show ?thesis using Pair keep by (simp add: act_catch_def)
    qed
  qed
qed

lemma preserves_modify: "(\<And>r. f (g r) = f r) \<Longrightarrow> preserves f (act_modify g)"
  by (simp add: preserves_def act_modify_def)

lemma preserves_if:
  "(b \<Longrightarrow> preserves f m) \<Longrightarrow> (\<not> b \<Longrightarrow> preserves f n) \<Longrightarrow> preserves f (if b then m else n)"
  by simp

lemma trace_blind_event: "trace_blind f \<Longrightarrow> f (record_event ev r) = f r"
  by (simp add: trace_blind_def record_event_def)

lemma preserves_call_unit: "trace_blind f \<Longrightarrow> preserves f (call_unit env c)"
  by (auto simp: preserves_def call_unit_def trace_blind_event split: option.splits)

lemma preserves_call_bool: "trace_blind f \<Longrightarrow> preserves f (call_bool env c)"
  by (simp add: preserves_def call_bool_def trace_blind_event)

lemma preserves_call_stat: "trace_blind f \<Longrightarrow> preserves f (call_stat env c)"
  by (simp add: preserves_def call_stat_def trace_blind_event)

lemma preserves_call_bytes: "trace_blind f \<Longrightarrow> preserves f (call_bytes env c)"
  by (simp add: preserves_def call_bytes_def trace_blind_event)

lemma preserves_datetime_now: "trace_blind f \<Longrightarrow> preserves f (datetime_now env)"
  by (simp add: preserves_def datetime_now_def trace_blind_event)

lemma preserves_time_time: "trace_blind f \<Longrightarrow> preserves f (time_time env)"
  by (simp add: preserves_def time_time_def trace_blind_event)

lemmas preserves_basic =
  preserves_ret preserves_raise preserves_bind preserves_then preserves_catch
  preserves_call_unit preserves_call_bool preserves_call_stat preserves_call_bytes
  preserves_datetime_now preserves_time_time

lemma preserves_get_meta: "trace_blind f \<Longrightarrow> preserves f (get_meta env ep rel)"
  by (auto simp: get_meta_def intro!: preserves_basic split: ep_type.splits)

lemma preserves_read_bytes: "trace_blind f \<Longrightarrow> preserves f (read_bytes env ep rel)"
  by (auto simp: read_bytes_def intro!: preserves_basic split: ep_type.splits)

lemma preserves_write_bytes: "trace_blind f \<Longrightarrow> preserves f (write_bytes env ep rel data)"
  by (auto simp: write_bytes_def intro!: preserves_basic split: ep_type.splits)

lemma preserves_copy_file: "trace_blind f \<Longrightarrow> preserves f (copy_file env ep src rel)"
  by (auto simp: copy_file_def intro!: preserves_basic)

lemma preserves_upload_file: "trace_blind f \<Longrightarrow> preserves f (upload_file env ep src rel)"
  by (auto simp: upload_file_def intro!: preserves_basic)

lemma preserves_download_file: "trace_blind f \<Longrightarrow> preserves f (download_file env ep rel dst)"
  by (auto simp: download_file_def intro!: preserves_basic)

lemma preserves_delete_file: "trace_blind f \<Longrightarrow> preserves f (delete_file env sd remote)"
  by (auto simp: delete_file_def intro!: preserves_basic)

lemmas preserves_ops =
  preserves_get_meta preserves_read_bytes preserves_write_bytes preserves_copy_file
  preserves_upload_file preserves_download_file preserves_delete_file

lemma preserves_move_to_trash: "trace_blind f \<Longrightarrow> preserves f (move_to_trash env ep rel ts)"
  by (auto simp: move_to_trash_def intro!: preserves_basic preserves_ops split: ep_type.splits)

lemma preserves_backup_file: "trace_blind f \<Longrightarrow> preserves f (backup_file env ep rel ts)"
  by (auto simp: backup_file_def intro!: preserves_basic preserves_ops split: ep_type.splits)

lemma preserves_compute_hash: "trace_blind f \<Longrightarrow> preserves f (compute_hash env cfg ep rel)"
  by (auto simp: compute_hash_def intro!: preserves_basic preserves_ops split: ep_type.splits)

lemma preserves_copy_between:
  "trace_blind f \<Longrightarrow> preserves f (copy_between env cfg src_ep dst_ep rel)"
  by (auto simp: copy_between_def intro!: preserves_basic preserves_ops split: ep_type.splits)

lemma preserves_mark_suppressed:
  "trace_blind f \<Longrightarrow> suppress_blind f \<Longrightarrow> preserves f (mark_suppressed env sd rel)"
  by (auto simp: mark_suppressed_def trace_blind_event suppress_blind_def
      intro!: preserves_basic preserves_modify)

lemma preserves_refresh_loser_meta:
  "trace_blind f \<Longrightarrow> preserves f (refresh_loser_meta env cfg ep rel)"
  by (auto simp: refresh_loser_meta_def Let_def
      intro!: preserves_basic preserves_get_meta preserves_compute_hash)

lemma preserves_backup_if_differs:
  "trace_blind f \<Longrightarrow> preserves f (backup_if_differs env cfg w l rel ts state)"
  by (auto simp: backup_if_differs_def intro!: preserves_basic preserves_backup_file)

lemma preserves_sync_transfer:
  "trace_blind f \<Longrightarrow> suppress_blind f \<Longrightarrow> preserves f (sync_transfer env cfg w l rel ts state)"
  by (auto simp: sync_transfer_def Let_def
      intro!: preserves_basic preserves_move_to_trash preserves_backup_if_differs
        preserves_copy_between preserves_mark_suppressed preserves_refresh_loser_meta)

lemma blind_fields:
  "trace_blind state_cache" "trace_blind db_rows" "trace_blind sync_logs"
  "trace_blind batch_queue" "trace_blind stop_event" "trace_blind init_done"
  "suppress_blind state_cache" "suppress_blind db_rows" "suppress_blind sync_logs"
  "suppress_blind batch_queue" "suppress_blind stop_event" "suppress_blind init_done"
  "trace_blind suppress"
  by (simp_all add: trace_blind_def suppress_blind_def)

section \<open>Errors inside a single-path sync\<close>

lemma sync_side_unfold:
  "sync_side env cfg w l rel r =
     act_catch
       (act_bind (sync_transfer env cfg w l rel (strftime env (ret_datetime env (trace r)))
                    (cached_state r rel))
          (sync_commit w l rel (ret_datetime env (trace r)) (deleted_of w (cached_state r rel))))
       (\<lambda>e. act_modify (create_log (failed_entry rel e)))
       (record_event (Called DatetimeNow) r)"
  by (simp add: sync_side_def Let_def act_bind_def datetime_now_def)

lemma sync_side_returns: "fst (sync_side env cfg w l rel r) = Inr ()"
  by (simp add: sync_side_unfold act_catch_def act_bind_def act_modify_def sync_commit_def
      split: prod.splits sum.splits)

lemma sync_transfer_keeps:
  assumes "sync_transfer env cfg w l rel ts state r = (res, r')"
  shows "state_cache r' = state_cache r" and "db_rows r' = db_rows r"
    and "sync_logs r' = sync_logs r" and "batch_queue r' = batch_queue r"
    and "stop_event r' = stop_event r" and "init_done r' = init_done r"
  using preservesD2 [OF preserves_sync_transfer [OF blind_fields(1) blind_fields(7)] assms]
    preservesD2 [OF preserves_sync_transfer [OF blind_fields(2) blind_fields(8)] assms]
    preservesD2 [OF preserves_sync_transfer [OF blind_fields(3) blind_fields(9)] assms]
    preservesD2 [OF preserves_sync_transfer [OF blind_fields(4) blind_fields(10)] assms]
    preservesD2 [OF preserves_sync_transfer [OF blind_fields(5) blind_fields(11)] assms]
    preservesD2 [OF preserves_sync_transfer [OF blind_fields(6) blind_fields(12)] assms]
  by simp_all

text \<open>
  Where an exception escapes the file operations of the \<open>try\<close> block, as it does from
  every operation of a local endpoint and from every copy, the sync behaves as the
  specification says: it does not raise, one entry with status \<open>failed\<close> and the
  exception's text is appended to the log, and the state cache and the stored rows
  are what they were before the sync.
\<close>

lemma escaped_error_logged:
  "fst (sync_side env cfg w l rel r) = Inr () \<and>
   (\<forall>e r'. sync_transfer env cfg w l rel (strftime env (ret_datetime env (trace r)))
              (cached_state r rel) (record_event (Called DatetimeNow) r) = (Inl e, r')
      \<longrightarrow> sync_logs (snd (sync_side env cfg w l rel r)) =
            sync_logs r @ [\<lparr>event_type = ''modified'', file_path = rel, dest_path = None,
                            status = ''failed'', error_message = Some (exn_message e)\<rparr>]
          \<and> state_cache (snd (sync_side env cfg w l rel r)) = state_cache r
          \<and> db_rows (snd (sync_side env cfg w l rel r)) = db_rows r)"
proof (intro conjI allI impI)
  show "fst (sync_side env cfg w l rel r) = Inr ()"
    by (rule sync_side_returns)
next
  fix e r'
  assume raised: "sync_transfer env cfg w l rel (strftime env (ret_datetime env (trace r)))
              (cached_state r rel) (record_event (Called DatetimeNow) r) = (Inl e, r')"
  have result: "snd (sync_side env cfg w l rel r) = create_log (failed_entry rel e) r'"
    using raised by (simp add: sync_side_unfold act_catch_def act_bind_def act_modify_def)
  have keep: "state_cache r' = state_cache r" "db_rows r' = db_rows r"
    "sync_logs r' = sync_logs r"
    using sync_transfer_keeps [OF raised] by (simp_all add: record_event_def)
  show "sync_logs (snd (sync_side env cfg w l rel r)) =
            sync_logs r @ [\<lparr>event_type = ''modified'', file_path = rel, dest_path = None,
                            status = ''failed'', error_message = Some (exn_message e)\<rparr>]"
    using keep by (simp add: result create_log_def failed_entry_def)
  show "state_cache (snd (sync_side env cfg w l rel r)) = state_cache r"
    using keep by (simp add: result create_log_def)
  show "db_rows (snd (sync_side env cfg w l rel r)) = db_rows r"
    using keep by (simp add: result create_log_def)
qed

text \<open>
  Two local endpoints, the same content on both sides, and a world whose
  \<open>shutil.copy2\<close> raises \<open>disk full\<close>: the copy step raises, the sync returns, the log
  gains one failed entry with that text and the cached row is unchanged.
\<close>

lemma escaped_error_logged_local:
  "fst (sync_transfer env_copy_fails cfg_local A B ''f.txt''
          (strftime env_copy_fails (ret_datetime env_copy_fails
             (trace (runner_with [(''f.txt'', row_same)]))))
          (cached_state (runner_with [(''f.txt'', row_same)]) ''f.txt'')
          (record_event (Called DatetimeNow) (runner_with [(''f.txt'', row_same)])))
     = Inl (Exn OtherError ''disk full'') \<and>
   fst (sync_side env_copy_fails cfg_local A B ''f.txt'' (runner_with [(''f.txt'', row_same)]))
     = Inr () \<and>
   sync_logs (snd (sync_side env_copy_fails cfg_local A B ''f.txt''
                     (runner_with [(''f.txt'', row_same)])))
     = [\<lparr>event_type = ''modified'', file_path = ''f.txt'', dest_path = None,
         status = ''failed'', error_message = Some ''disk full''\<rparr>] \<and>
   state_cache (snd (sync_side env_copy_fails cfg_local A B ''f.txt''
                       (runner_with [(''f.txt'', row_same)])))
     = [(''f.txt'', row_same)]"
proof -
  let ?r = "runner_with [(''f.txt'', row_same)]"
  let ?t = "sync_transfer env_copy_fails cfg_local A B ''f.txt''
          (strftime env_copy_fails (ret_datetime env_copy_fails (trace ?r)))
          (cached_state ?r ''f.txt'') (record_event (Called DatetimeNow) ?r)"
  have raised: "fst ?t = Inl (Exn OtherError ''disk full'')"
    by code_simp
  then have eq: "?t = (Inl (Exn OtherError ''disk full''), snd ?t)"
    by (simp add: prod_eq_iff)
  have logs0: "sync_logs ?r = []" and cache0: "state_cache ?r = [(''f.txt'', row_same)]"
    by (simp_all add: runner_with_def)
  from escaped_error_logged [of env_copy_fails cfg_local A B "''f.txt''" ?r] eq raised
    logs0 cache0
  show ?thesis
    by auto
qed

text \<open>
  Claim C8: an error raised during the transfer, trash or backup step appends a
  \<open>failed\<close> entry and leaves the row unchanged. The code breaks this where the loser is
  a remote endpoint: \<open>SshEndpoint.move_to_trash\<close> and \<open>SshEndpoint.backup_file\<close> catch
  their own exceptions, which their local siblings raise. With side A deleted, B
  remote and holding the file, and a world in which every call raises, the move to the
  trash fails and so does its fallback; the sync ends with a \<open>success\<close> entry and a row
  that says B's file is deleted, while nothing was moved. With different content on
  the two sides and a world in which reading a remote file raises, the backup of B's
  file fails; the sync uploads A's file over it and ends with a \<open>success\<close> entry.
\<close>

theorem remote_error_reported_success:
  "ret_unit env_down [Called DatetimeNow]
     (TransferMove B ''/home/u/b/f.txt'' ''/home/u/b/.tongbu_trash/20250101_000000/f.txt'')
     = Some lost \<and>
   trace (snd (sync_side env_down cfg_ssh A B ''f.txt'' (runner_with [(''f.txt'', row_a_deleted)])))
     = [Called DatetimeNow,
        Called (TransferMove B ''/home/u/b/f.txt''
                  ''/home/u/b/.tongbu_trash/20250101_000000/f.txt''),
        Called (TransferRead B ''/home/u/b/f.txt''), Called TimeTime, Suppressed B ''f.txt''] \<and>
   map status (sync_logs (snd (sync_side env_down cfg_ssh A B ''f.txt''
                                  (runner_with [(''f.txt'', row_a_deleted)])))) = [''success''] \<and>
   dict_get (state_cache (snd (sync_side env_down cfg_ssh A B ''f.txt''
                                  (runner_with [(''f.txt'', row_a_deleted)])))) ''f.txt''
     = Some (row_a_deleted\<lparr>b_meta := empty_meta, b_deleted := True, b_seen_at := Some 100,
                            last_winner := Some A, last_sync_at := Some 100\<rparr>) \<and>
   ret_bytes env_read_fails [Called DatetimeNow] (TransferRead B ''/home/u/b/f.txt'')
     = Inl lost \<and>
   trace (snd (sync_side env_read_fails cfg_ssh A B ''f.txt''
                 (runner_with [(''f.txt'', row_differs)])))
     = [Called DatetimeNow, Called (TransferRead B ''/home/u/b/f.txt''),
        Called (TransferUpload B ''/srv/a/f.txt'' ''/home/u/b/f.txt''),
        Called TimeTime, Suppressed B ''f.txt'',
        Called (TransferStat B ''/home/u/b/f.txt''),
        Called (TransferRead B ''/home/u/b/f.txt'')] \<and>
   map status (sync_logs (snd (sync_side env_read_fails cfg_ssh A B ''f.txt''
                                  (runner_with [(''f.txt'', row_differs)])))) = [''success''] \<and>
   dict_get (state_cache (snd (sync_side env_read_fails cfg_ssh A B ''f.txt''
                                  (runner_with [(''f.txt'', row_differs)])))) ''f.txt''
     = Some (row_differs\<lparr>b_meta := \<lparr>msize = Some 3, mtime = Some 10, mhash = None\<rparr>,
                          b_seen_at := Some 100, last_winner := Some A,
                          last_sync_at := Some 100\<rparr>)"
  by code_simp

section \<open>Deleting what is not there\<close>

text \<open>
  Claim C10. Deleting or trashing a path the endpoint does not hold returns without
  raising and does nothing further: the remote \<open>delete_file\<close>, once connected,
  passes over the \<open>FileNotFoundError\<close> of \<open>sftp.remove\<close>; the local \<open>move_to_trash\<close>
  returns after the existence test; and the one-way delete handler skips the unlink.
  In each case the only calls made are the ones named, and the rest of the state is
  untouched.
\<close>

theorem absent_path_is_noop:
  "(ret_unit env (trace r) (EnsureConnected sd) = None \<and>
    ret_unit env (trace r @ [Called (EnsureConnected sd)]) (SftpRemove sd remote)
      = Some (Exn FileNotFoundError msg)
      \<longrightarrow> delete_file env sd remote r =
            (Inr (), r\<lparr>trace := trace r @ [Called (EnsureConnected sd),
                                           Called (SftpRemove sd remote)]\<rparr>)) \<and>
   (ep_type ep = Local \<and> ret_bool env (trace r) (PathExists (abs_path ep rel)) = Inr False
      \<longrightarrow> move_to_trash env ep rel ts r =
            (Inr (), r\<lparr>trace := trace r @ [Called (PathExists (abs_path ep rel))]\<rparr>)) \<and>
   (ret_bool env (trace r) (PathExists target) = Inr False
      \<longrightarrow> handle_delete env target r =
            (Inr (), r\<lparr>trace := trace r @ [Called (PathExists target)]\<rparr>))"
  by (simp add: delete_file_def move_to_trash_def handle_delete_def act_then_def act_bind_def
      act_catch_def act_ret_def call_unit_def call_bool_def record_event_def)

text \<open>In a world where no path exists, on the runner with no rows.\<close>

theorem absent_path_is_noop_witness:
  "fst (delete_file env_absent B ''/home/u/b/gone.txt'' (runner_with [])) = Inr () \<and>
   trace (snd (delete_file env_absent B ''/home/u/b/gone.txt'' (runner_with [])))
     = [Called (EnsureConnected B), Called (SftpRemove B ''/home/u/b/gone.txt'')] \<and>
   fst (move_to_trash env_absent ep_a ''gone.txt'' ''20250101_000000'' (runner_with [])) = Inr () \<and>
   trace (snd (move_to_trash env_absent ep_a ''gone.txt'' ''20250101_000000'' (runner_with [])))
     = [Called (PathExists ''/srv/a/gone.txt'')] \<and>
   fst (handle_delete env_absent ''/srv/t/gone.txt'' (runner_with [])) = Inr () \<and>
   trace (snd (handle_delete env_absent ''/srv/t/gone.txt'' (runner_with [])))
     = [Called (PathExists ''/srv/t/gone.txt'')]"
proof -
  let ?r = "runner_with []"
  have h1: "ret_unit env_absent (trace ?r) (EnsureConnected B) = None \<and>
    ret_unit env_absent (trace ?r @ [Called (EnsureConnected B)])
      (SftpRemove B ''/home/u/b/gone.txt'') = Some (Exn FileNotFoundError ''No such file'')"
    by (simp add: env_absent_def env_ok_def)
  have h2: "ep_type ep_a = Local \<and>
    ret_bool env_absent (trace ?r) (PathExists (abs_path ep_a ''gone.txt'')) = Inr False"
    by (simp add: env_absent_def env_ok_def ep_a_def)
  have h3: "ret_bool env_absent (trace ?r) (PathExists ''/srv/t/gone.txt'') = Inr False"
    by (simp add: env_absent_def env_ok_def)
  have p: "abs_path ep_a ''gone.txt'' = ''/srv/a/gone.txt''"
    by (simp add: abs_path_def ep_a_def)
  have t0: "trace ?r = []"
    by (simp add: runner_with_def)
  from absent_path_is_noop [of env_absent ?r B "''/home/u/b/gone.txt''" "''No such file''"
      ep_a "''gone.txt''" "''20250101_000000''" "''/srv/t/gone.txt''"] h1 h2 h3
  show ?thesis
    by (simp add: p t0)
qed

section \<open>The copy onto the loser and the suppression mark\<close>

lemma act_then_ret: "act_then (act_ret ()) m = m"
  by (rule ext) (simp add: act_then_def act_bind_def act_ret_def)

lemma mark_suppressed_marked: "mark_suppressed env sd rel r = (Inr (), marked env sd rel r)"
  by (simp add: mark_suppressed_def marked_def act_bind_def time_time_def act_modify_def
      record_event_def)

lemma call_unit_last:
  "call_unit env c r = (Inr (), r') \<Longrightarrow> trace r' \<noteq> [] \<and> last (trace r') = Called c"
  by (auto simp: call_unit_def record_event_def split: option.splits)

lemma write_bytes_last:
  assumes "write_bytes env ep rel data r = (Inr (), r')"
  shows "trace r' \<noteq> [] \<and> event_writes_file ep rel (last (trace r'))"
proof (cases "ep_type ep")
  case Local
  then obtain r1 where
    "call_unit env (WriteFile (abs_path ep rel) data) r1 = (Inr (), r')"
    using assms
    by (auto simp: write_bytes_def act_then_def act_bind_def split: prod.splits sum.splits)
  from call_unit_last [OF this] show ?thesis by simp
next
  case Ssh
  then have "call_unit env (TransferWrite (ep_side ep) (remote_path ep rel) data) r = (Inr (), r')"
    using assms by (simp add: write_bytes_def)
  from call_unit_last [OF this] show ?thesis by simp
qed

lemma read_then_write_last:
  assumes "act_bind (read_bytes env src rel) (\<lambda>content. write_bytes env dst rel (g content)) r
             = (Inr (), r')"
  shows "trace r' \<noteq> [] \<and> event_writes_file dst rel (last (trace r'))"
proof -
  obtain content r1 where "write_bytes env dst rel (g content) r1 = (Inr (), r')"
    using assms by (auto simp: act_bind_def split: prod.splits sum.splits)
  then show ?thesis by (rule write_bytes_last)
qed

lemma copy_between_last:
  assumes "copy_between env cfg src dst rel r = (Inr (), r')"
  shows "trace r' \<noteq> [] \<and> event_writes_file dst rel (last (trace r'))"
proof (cases "ep_type src"; cases "ep_type dst")
  assume t: "ep_type src = Local" "ep_type dst = Local"
  show ?thesis
  proof (cases "eol_normalize cfg = ''keep'' \<or> \<not> is_text_path rel")
    case True
    then obtain r1 where
      "call_unit env (Copy2 (abs_path src rel) (abs_path dst rel)) r1 = (Inr (), r')"
      using assms t
      by (auto simp: copy_between_def copy_file_def act_then_def act_bind_def
          split: prod.splits sum.splits)
    from call_unit_last [OF this] show ?thesis by simp
  next
    case False
    then show ?thesis
      using assms t read_then_write_last [of env src rel dst _ r r']
      by (simp add: copy_between_def)
  qed
next
  assume t: "ep_type src = Local" "ep_type dst = Ssh"
  show ?thesis
  proof (cases "eol_normalize cfg = ''keep'' \<or> \<not> is_text_path rel")
    case True
    then have "call_unit env
        (TransferUpload (ep_side dst) (abs_path src rel) (remote_path dst rel)) r = (Inr (), r')"
      using assms t by (simp add: copy_between_def upload_file_def)
    from call_unit_last [OF this] show ?thesis by simp
  next
    case False
    then show ?thesis
      using assms t read_then_write_last [of env src rel dst _ r r']
      by (simp add: copy_between_def)
  qed
next
  assume t: "ep_type src = Ssh" "ep_type dst = Local"
  show ?thesis
  proof (cases "eol_normalize cfg = ''keep'' \<or> \<not> is_text_path rel")
    case True
    then obtain r1 where "call_unit env
        (TransferDownload (ep_side src) (remote_path src rel) (abs_path dst rel)) r1 = (Inr (), r')"
      using assms t
      by (auto simp: copy_between_def download_file_def act_then_def act_bind_def
          split: prod.splits sum.splits)
    from call_unit_last [OF this] show ?thesis by simp
  next
    case False
    then show ?thesis
      using assms t read_then_write_last [of env src rel dst _ r r']
      by (simp add: copy_between_def)
  qed
next
  assume t: "ep_type src = Ssh" "ep_type dst = Ssh"
  show ?thesis
    using assms t read_then_write_last [of env src rel dst _ r r']
    by (simp add: copy_between_def)
qed

text \<open>
  Claim C1, as stated, fails: the copy onto the loser is not conditional. With two
  local endpoints whose sides hold the file with the same hash (the loser's meta is
  not changed relative to the winner's), the sync of A onto B calls \<open>shutil.copy2\<close>
  onto B's file.
\<close>

theorem equal_content_still_written_counterexample:
  "\<not> deleted_of A row_same \<and> meta_truthy (meta_of B row_same) \<and> \<not> deleted_of B row_same \<and>
   \<not> meta_changed (meta_of B row_same) (Some (meta_of A row_same)) \<and>
   trace (snd (sync_side env_ok cfg_local A B ''f.txt'' (runner_with [(''f.txt'', row_same)])))
     = [Called DatetimeNow, Called (MkParent ''/srv/b/f.txt''),
        Called (Copy2 ''/srv/a/f.txt'' ''/srv/b/f.txt''), Called TimeTime,
        Suppressed B ''f.txt'', Called (PathExists ''/srv/b/f.txt''),
        Called (PathStat ''/srv/b/f.txt''), Called (PathExists ''/srv/b/f.txt''),
        Called (ReadFile ''/srv/b/f.txt'')] \<and>
   list_ex (event_writes_file ep_b_local ''f.txt'')
     (trace (snd (sync_side env_ok cfg_local A B ''f.txt'' (runner_with [(''f.txt'', row_same)]))))"
  by code_simp

text \<open>
  Claim C1, amended. Where the winner holds the file and the loser holds it with a
  meta that is not changed relative to the winner's, the engine takes no backup, but
  it still copies the winner's file onto the loser, then marks the path suppressed
  and re-reads the loser's meta; and whenever that copy returns, the last call it
  made is a write of the loser's file.
\<close>

theorem equal_content_copy_without_backup:
  assumes "\<not> deleted_of w state" and "meta_truthy (meta_of l state)"
    and "\<not> deleted_of l state"
    and "\<not> meta_changed (meta_of l state) (Some (meta_of w state))"
  shows "backup_if_differs env cfg w l rel ts state = act_ret () \<and>
         sync_transfer env cfg w l rel ts state =
           act_then (copy_between env cfg (endpoints cfg w) (endpoints cfg l) rel)
             (act_then (mark_suppressed env l rel)
                (refresh_loser_meta env cfg (endpoints cfg l) rel)) \<and>
         (\<forall>r r'. copy_between env cfg (endpoints cfg w) (endpoints cfg l) rel r = (Inr (), r')
            \<longrightarrow> trace r' \<noteq> [] \<and> event_writes_file (endpoints cfg l) rel (last (trace r')))"
proof (intro conjI allI impI)
  show nb: "backup_if_differs env cfg w l rel ts state = act_ret ()"
    using assms by (simp add: backup_if_differs_def)
  show "sync_transfer env cfg w l rel ts state =
           act_then (copy_between env cfg (endpoints cfg w) (endpoints cfg l) rel)
             (act_then (mark_suppressed env l rel)
                (refresh_loser_meta env cfg (endpoints cfg l) rel))"
    using assms(1) by (simp add: sync_transfer_def Let_def nb act_then_ret)
next
  fix r r'
  assume "copy_between env cfg (endpoints cfg w) (endpoints cfg l) rel r = (Inr (), r')"
  then show "trace r' \<noteq> []" and "event_writes_file (endpoints cfg l) rel (last (trace r'))"
    using copy_between_last by blast+
qed

text \<open>
  The same two local endpoints and the same row: no backup, and the copy returns
  after \<open>shutil.copy2\<close> onto \<open>/srv/b/f.txt\<close>.
\<close>

theorem equal_content_copy_without_backup_witness:
  "\<not> deleted_of A row_same \<and> meta_truthy (meta_of B row_same) \<and> \<not> deleted_of B row_same \<and>
   \<not> meta_changed (meta_of B row_same) (Some (meta_of A row_same)) \<and>
   fst (copy_between env_ok cfg_local ep_a ep_b_local ''f.txt'' (runner_with [])) = Inr () \<and>
   last (trace (snd (copy_between env_ok cfg_local ep_a ep_b_local ''f.txt'' (runner_with []))))
     = Called (Copy2 ''/srv/a/f.txt'' ''/srv/b/f.txt'') \<and>
   event_writes_file ep_b_local ''f.txt''
     (last (trace (snd (copy_between env_ok cfg_local ep_a ep_b_local ''f.txt'' (runner_with [])))))"
proof -
  let ?c = "copy_between env_ok cfg_local ep_a ep_b_local ''f.txt'' (runner_with [])"
  have h: "\<not> deleted_of A row_same" "meta_truthy (meta_of B row_same)"
    "\<not> deleted_of B row_same"
    "\<not> meta_changed (meta_of B row_same) (Some (meta_of A row_same))"
    by code_simp+
  have eps: "endpoints cfg_local A = ep_a" "endpoints cfg_local B = ep_b_local"
    by (simp_all add: cfg_local_def)
  have ok: "fst ?c = Inr ()"
    by code_simp
  then have eq: "?c = (Inr (), snd ?c)"
    by (simp add: prod_eq_iff)
  have lst: "last (trace (snd ?c)) = Called (Copy2 ''/srv/a/f.txt'' ''/srv/b/f.txt'')"
    by code_simp
  from equal_content_copy_without_backup [OF h, of env_ok cfg_local "''f.txt''"] eq
  have "event_writes_file ep_b_local ''f.txt'' (last (trace (snd ?c)))"
    by (simp add: eps)
  with h ok lst show ?thesis
    by simp
qed

lemma is_suppressed_live:
  assumes "suppress r sd src = Some t" and "t \<noteq> 0" and "ret_time env (trace r) \<le> t"
  shows "is_suppressed env sd src r = (Inr True, record_event (Called TimeTime) r)"
  using assms
  by (simp add: is_suppressed_def act_bind_def time_time_def act_ret_def)

text \<open>
  Claim C2, as stated, fails: the mark is set after the operation, not before it.
  With side A deleted and B a local endpoint that holds the file, the sync moves B's
  file to the trash, and only then reads the clock and marks the pair; no mark stands
  before the move.
\<close>

theorem mark_after_move_counterexample:
  "trace (snd (sync_side env_ok cfg_local A B ''f.txt'' (runner_with [(''f.txt'', row_a_deleted)])))
     = [Called DatetimeNow, Called (PathExists ''/srv/b/f.txt''),
        Called (MkParent ''/srv/b/.tongbu_trash/20250101_000000/f.txt''),
        Called (Move ''/srv/b/f.txt'' ''/srv/b/.tongbu_trash/20250101_000000/f.txt''),
        Called TimeTime, Suppressed B ''f.txt''] \<and>
   \<not> spec_marked_before B ''f.txt'' False
       (trace (snd (sync_side env_ok cfg_local A B ''f.txt''
                      (runner_with [(''f.txt'', row_a_deleted)]))))"
  by code_simp

text \<open>
  Claim C2, amended. The pair \<open>(loser, rel_path)\<close> is marked right after the move to
  the trash, or the copy, has returned, and not at all when that operation raises;
  the backup before a copy is not marked on its own. The mark reads the clock and
  lasts until two seconds after that reading. A local watcher event or a remote
  notification whose side and source path carry a mark that has not run out is
  dropped: the handler returns after reading the clock and leaves everything else
  as it was.
\<close>

theorem suppression_mark_follows:
  "(deleted_of w st \<and> \<not> deleted_of l st \<and> meta_truthy (meta_of l st) \<longrightarrow>
      (\<forall>r1. move_to_trash env (endpoints cfg l) rel ts r = (Inr (), r1)
         \<longrightarrow> sync_transfer env cfg w l rel ts st r
               = (Inr (empty_meta, True), marked env l rel r1)) \<and>
      (\<forall>e r1. move_to_trash env (endpoints cfg l) rel ts r = (Inl e, r1)
         \<longrightarrow> sync_transfer env cfg w l rel ts st r = (Inl e, r1))) \<and>
   (\<not> deleted_of w st \<longrightarrow>
      (\<forall>r0 r1. backup_if_differs env cfg w l rel ts st r = (Inr (), r0) \<and>
               copy_between env cfg (endpoints cfg w) (endpoints cfg l) rel r0 = (Inr (), r1)
         \<longrightarrow> sync_transfer env cfg w l rel ts st r
               = refresh_loser_meta env cfg (endpoints cfg l) rel (marked env l rel r1)) \<and>
      (\<forall>r0 e r1. backup_if_differs env cfg w l rel ts st r = (Inr (), r0) \<and>
               copy_between env cfg (endpoints cfg w) (endpoints cfg l) rel r0 = (Inl e, r1)
         \<longrightarrow> sync_transfer env cfg w l rel ts st r = (Inl e, r1))) \<and>
   suppress (marked env l rel r) l rel = Some (ret_time env (trace r) + 2) \<and>
   trace (marked env l rel r) = trace r @ [Called TimeTime, Suppressed l rel] \<and>
   (suppress r sd src = Some t \<and> t \<noteq> 0 \<and> ret_time env (trace r) \<le> t \<longrightarrow>
      on_local_event env cfg sd ev (Some src) dest r
        = (Inr (), record_event (Called TimeTime) r) \<and>
      on_remote_event env cfg sd ev src r = (Inr (), record_event (Called TimeTime) r))"
proof (intro conjI allI impI)
  fix r1
  assume "deleted_of w st \<and> \<not> deleted_of l st \<and> meta_truthy (meta_of l st)"
    and "move_to_trash env (endpoints cfg l) rel ts r = (Inr (), r1)"
  then show "sync_transfer env cfg w l rel ts st r
               = (Inr (empty_meta, True), marked env l rel r1)"
    by (simp add: sync_transfer_def Let_def act_then_def act_bind_def act_ret_def
        mark_suppressed_marked)
next
  fix e r1
  assume "deleted_of w st \<and> \<not> deleted_of l st \<and> meta_truthy (meta_of l st)"
    and "move_to_trash env (endpoints cfg l) rel ts r = (Inl e, r1)"
  then show "sync_transfer env cfg w l rel ts st r = (Inl e, r1)"
    by (simp add: sync_transfer_def Let_def act_then_def act_bind_def)
next
  fix r0 r1
  assume "\<not> deleted_of w st"
    and "backup_if_differs env cfg w l rel ts st r = (Inr (), r0) \<and>
         copy_between env cfg (endpoints cfg w) (endpoints cfg l) rel r0 = (Inr (), r1)"
  then show "sync_transfer env cfg w l rel ts st r
               = refresh_loser_meta env cfg (endpoints cfg l) rel (marked env l rel r1)"
    by (simp add: sync_transfer_def Let_def act_then_def act_bind_def mark_suppressed_marked)
next
  fix r0 e r1
  assume "\<not> deleted_of w st"
    and "backup_if_differs env cfg w l rel ts st r = (Inr (), r0) \<and>
         copy_between env cfg (endpoints cfg w) (endpoints cfg l) rel r0 = (Inl e, r1)"
  then show "sync_transfer env cfg w l rel ts st r = (Inl e, r1)"
    by (simp add: sync_transfer_def Let_def act_then_def act_bind_def)
next
  show "suppress (marked env l rel r) l rel = Some (ret_time env (trace r) + 2)"
    by (simp add: marked_def record_event_def suppress_window_def)
  show "trace (marked env l rel r) = trace r @ [Called TimeTime, Suppressed l rel]"
    by (simp add: marked_def record_event_def)
next
  assume live: "suppress r sd src = Some t \<and> t \<noteq> 0 \<and> ret_time env (trace r) \<le> t"
  then have sup: "is_suppressed env sd src r = (Inr True, record_event (Called TimeTime) r)"
    by (simp add: is_suppressed_live)
  show "on_local_event env cfg sd ev (Some src) dest r
        = (Inr (), record_event (Called TimeTime) r)"
    by (simp add: on_local_event_def act_bind_def sup act_ret_def)
  show "on_remote_event env cfg sd ev src r = (Inr (), record_event (Called TimeTime) r)"
    by (simp add: on_remote_event_def act_bind_def sup act_ret_def)
qed

text \<open>
  Two local endpoints in a world where every call returns and the clock reads 50.
  The move of B's file to the trash returns, and the transfer ends marked until 52
  with the mark as its last event; where the move raises (a world where every call
  raises) no mark is set. With equal content on both sides the copy returns and the
  pair is marked until 52; where \<open>shutil.copy2\<close> raises it is not. An event for the
  marked pair at clock 50 is dropped: nothing is queued and no row appears.
\<close>

theorem suppression_mark_follows_witness:
  "fst (move_to_trash env_ok ep_b_local ''f.txt'' ''20250101_000000''
          (runner_with [(''f.txt'', row_a_deleted)])) = Inr () \<and>
   suppress (snd (sync_transfer env_ok cfg_local A B ''f.txt'' ''20250101_000000'' row_a_deleted
                    (runner_with [(''f.txt'', row_a_deleted)]))) B ''f.txt'' = Some 52 \<and>
   trace (snd (sync_transfer env_ok cfg_local A B ''f.txt'' ''20250101_000000'' row_a_deleted
                 (runner_with [(''f.txt'', row_a_deleted)])))
     = [Called (PathExists ''/srv/b/f.txt''),
        Called (MkParent ''/srv/b/.tongbu_trash/20250101_000000/f.txt''),
        Called (Move ''/srv/b/f.txt'' ''/srv/b/.tongbu_trash/20250101_000000/f.txt''),
        Called TimeTime, Suppressed B ''f.txt''] \<and>
   fst (move_to_trash env_down ep_b_local ''f.txt'' ''20250101_000000''
          (runner_with [(''f.txt'', row_a_deleted)])) = Inl lost \<and>
   suppress (snd (sync_transfer env_down cfg_local A B ''f.txt'' ''20250101_000000'' row_a_deleted
                    (runner_with [(''f.txt'', row_a_deleted)]))) B ''f.txt'' = None \<and>
   fst (copy_between env_ok cfg_local ep_a ep_b_local ''f.txt''
          (runner_with [(''f.txt'', row_same)])) = Inr () \<and>
   suppress (snd (sync_transfer env_ok cfg_local A B ''f.txt'' ''20250101_000000'' row_same
                    (runner_with [(''f.txt'', row_same)]))) B ''f.txt'' = Some 52 \<and>
   fst (copy_between env_copy_fails cfg_local ep_a ep_b_local ''f.txt''
          (runner_with [(''f.txt'', row_same)])) = Inl (Exn OtherError ''disk full'') \<and>
   suppress (snd (sync_transfer env_copy_fails cfg_local A B ''f.txt'' ''20250101_000000'' row_same
                    (runner_with [(''f.txt'', row_same)]))) B ''f.txt'' = None \<and>
   fst (on_local_event env_ok cfg_local B ''modified'' (Some ''f.txt'') None
          (marked env_ok B ''f.txt'' (runner_with []))) = Inr () \<and>
   trace (snd (on_local_event env_ok cfg_local B ''modified'' (Some ''f.txt'') None
                 (marked env_ok B ''f.txt'' (runner_with []))))
     = [Called TimeTime, Suppressed B ''f.txt'', Called TimeTime] \<and>
   batch_queue (snd (on_local_event env_ok cfg_local B ''modified'' (Some ''f.txt'') None
                       (marked env_ok B ''f.txt'' (runner_with [])))) = [] \<and>
   state_cache (snd (on_remote_event env_ok cfg_local B ''modified'' ''f.txt''
                       (marked env_ok B ''f.txt'' (runner_with [])))) = []"
proof -
  let ?ts = "''20250101_000000''"
  let ?rd = "runner_with [(''f.txt'', row_a_deleted)]"
  let ?rs = "runner_with [(''f.txt'', row_same)]"
  let ?rm = "marked env_ok B ''f.txt'' (runner_with [])"
  have eps: "endpoints cfg_local A = ep_a" "endpoints cfg_local B = ep_b_local"
    by (simp_all add: cfg_local_def)
  have del: "deleted_of A row_a_deleted \<and> \<not> deleted_of B row_a_deleted
               \<and> meta_truthy (meta_of B row_a_deleted)"
    by code_simp
  have same: "\<not> deleted_of A row_same"
    by code_simp
  have times: "ret_time env_ok tr = 50" "ret_time env_down tr = 50"
    "ret_time env_copy_fails tr = 50" for tr
    by (simp_all add: env_ok_def env_down_def env_copy_fails_def)
  have none: "suppress ?rd B ''f.txt'' = None" "suppress ?rs B ''f.txt'' = None"
    by (simp_all add: runner_with_def)

  have mv_ok: "fst (move_to_trash env_ok ep_b_local ''f.txt'' ?ts ?rd) = Inr ()"
    by code_simp
  then have mv_ok_eq: "move_to_trash env_ok (endpoints cfg_local B) ''f.txt'' ?ts ?rd
      = (Inr (), snd (move_to_trash env_ok ep_b_local ''f.txt'' ?ts ?rd))"
    by (simp add: prod_eq_iff eps)
  have mv_trace: "trace (snd (move_to_trash env_ok ep_b_local ''f.txt'' ?ts ?rd))
     = [Called (PathExists ''/srv/b/f.txt''),
        Called (MkParent ''/srv/b/.tongbu_trash/20250101_000000/f.txt''),
        Called (Move ''/srv/b/f.txt'' ''/srv/b/.tongbu_trash/20250101_000000/f.txt'')]"
    by code_simp
  from suppression_mark_follows [of A row_a_deleted B env_ok cfg_local "''f.txt''" ?ts ?rd]
    del mv_ok_eq
  have t1: "sync_transfer env_ok cfg_local A B ''f.txt'' ?ts row_a_deleted ?rd
      = (Inr (empty_meta, True),
         marked env_ok B ''f.txt'' (snd (move_to_trash env_ok ep_b_local ''f.txt'' ?ts ?rd)))"
    by blast
  from suppression_mark_follows
    [of A row_a_deleted B env_ok cfg_local "''f.txt''" ?ts
      "snd (move_to_trash env_ok ep_b_local ''f.txt'' ?ts ?rd)"]
  have m1: "suppress (marked env_ok B ''f.txt''
              (snd (move_to_trash env_ok ep_b_local ''f.txt'' ?ts ?rd))) B ''f.txt'' = Some 52"
    and m2: "trace (marked env_ok B ''f.txt''
              (snd (move_to_trash env_ok ep_b_local ''f.txt'' ?ts ?rd)))
            = trace (snd (move_to_trash env_ok ep_b_local ''f.txt'' ?ts ?rd))
                @ [Called TimeTime, Suppressed B ''f.txt'']"
    by (simp_all add: times)

  have mv_bad: "fst (move_to_trash env_down ep_b_local ''f.txt'' ?ts ?rd) = Inl lost"
    by code_simp
  then have mv_bad_eq: "move_to_trash env_down (endpoints cfg_local B) ''f.txt'' ?ts ?rd
      = (Inl lost, snd (move_to_trash env_down ep_b_local ''f.txt'' ?ts ?rd))"
    by (simp add: prod_eq_iff eps)
  from suppression_mark_follows [of A row_a_deleted B env_down cfg_local "''f.txt''" ?ts ?rd]
    del mv_bad_eq
  have t2: "sync_transfer env_down cfg_local A B ''f.txt'' ?ts row_a_deleted ?rd
      = (Inl lost, snd (move_to_trash env_down ep_b_local ''f.txt'' ?ts ?rd))"
    by blast
  have s2: "suppress (snd (move_to_trash env_down ep_b_local ''f.txt'' ?ts ?rd)) B ''f.txt''
              = None"
    using preservesD [OF preserves_move_to_trash [OF blind_fields(13)],
        of env_down ep_b_local "''f.txt''" ?ts ?rd] none
    by simp

  have bk: "backup_if_differs env cfg_local A B ''f.txt'' ?ts row_same ?rs = (Inr (), ?rs)"
    for env
    by (simp add: backup_if_differs_def act_ret_def row_same_def meta_changed_def meta_h1_def
        meta_truthy_def opt_meta_truthy_def empty_meta_def str_truthy_def meta_or_empty_def)
  have cp_ok: "fst (copy_between env_ok cfg_local ep_a ep_b_local ''f.txt'' ?rs) = Inr ()"
    by code_simp
  then have cp_ok_eq: "copy_between env_ok cfg_local (endpoints cfg_local A)
        (endpoints cfg_local B) ''f.txt'' ?rs
      = (Inr (), snd (copy_between env_ok cfg_local ep_a ep_b_local ''f.txt'' ?rs))"
    by (simp add: prod_eq_iff eps)
  from suppression_mark_follows [of A row_same B env_ok cfg_local "''f.txt''" ?ts ?rs]
    same bk [of env_ok] cp_ok_eq
  have t3: "sync_transfer env_ok cfg_local A B ''f.txt'' ?ts row_same ?rs
      = refresh_loser_meta env_ok cfg_local (endpoints cfg_local B) ''f.txt''
          (marked env_ok B ''f.txt''
             (snd (copy_between env_ok cfg_local ep_a ep_b_local ''f.txt'' ?rs)))"
    by blast
  from suppression_mark_follows
    [of A row_same B env_ok cfg_local "''f.txt''" ?ts
      "snd (copy_between env_ok cfg_local ep_a ep_b_local ''f.txt'' ?rs)"]
  have m3: "suppress (marked env_ok B ''f.txt''
              (snd (copy_between env_ok cfg_local ep_a ep_b_local ''f.txt'' ?rs))) B ''f.txt''
            = Some 52"
    by (simp add: times)
  have s3: "suppress (snd (sync_transfer env_ok cfg_local A B ''f.txt'' ?ts row_same ?rs))
              B ''f.txt'' = Some 52"
    using preservesD [OF preserves_refresh_loser_meta [OF blind_fields(13)],
        of env_ok cfg_local "endpoints cfg_local B" "''f.txt''"
          "marked env_ok B ''f.txt''
             (snd (copy_between env_ok cfg_local ep_a ep_b_local ''f.txt'' ?rs))"] m3
    by (simp add: t3)

  have cp_bad: "fst (copy_between env_copy_fails cfg_local ep_a ep_b_local ''f.txt'' ?rs)
      = Inl (Exn OtherError ''disk full'')"
    by code_simp
  then have cp_bad_eq: "copy_between env_copy_fails cfg_local (endpoints cfg_local A)
        (endpoints cfg_local B) ''f.txt'' ?rs
      = (Inl (Exn OtherError ''disk full''),
         snd (copy_between env_copy_fails cfg_local ep_a ep_b_local ''f.txt'' ?rs))"
    by (simp add: prod_eq_iff eps)
  from suppression_mark_follows [of A row_same B env_copy_fails cfg_local "''f.txt''" ?ts ?rs]
    same bk [of env_copy_fails] cp_bad_eq
  have t4: "sync_transfer env_copy_fails cfg_local A B ''f.txt'' ?ts row_same ?rs
      = (Inl (Exn OtherError ''disk full''),
         snd (copy_between env_copy_fails cfg_local ep_a ep_b_local ''f.txt'' ?rs))"
    by blast
  have s4: "suppress (snd (copy_between env_copy_fails cfg_local ep_a ep_b_local ''f.txt'' ?rs))
              B ''f.txt'' = None"
    using preservesD [OF preserves_copy_between [OF blind_fields(13)],
        of env_copy_fails cfg_local ep_a ep_b_local "''f.txt''" ?rs] none
    by simp

  from suppression_mark_follows [of _ _ B env_ok _ "''f.txt''" _ "runner_with []"]
  have live: "suppress ?rm B ''f.txt'' = Some 52"
    and rm_trace: "trace ?rm = [Called TimeTime, Suppressed B ''f.txt'']"
    by (simp_all add: times runner_with_def)
  from suppression_mark_follows
    [of _ _ _ env_ok cfg_local _ _ ?rm B "''f.txt''" 52 "''modified''" None] live
  have ev: "on_local_event env_ok cfg_local B ''modified'' (Some ''f.txt'') None ?rm
              = (Inr (), record_event (Called TimeTime) ?rm)"
    and rev: "on_remote_event env_ok cfg_local B ''modified'' ''f.txt'' ?rm
              = (Inr (), record_event (Called TimeTime) ?rm)"
    by (simp_all add: times)
  have rm_rest: "batch_queue ?rm = []" "state_cache ?rm = []"
    by (simp_all add: marked_def record_event_def runner_with_def)

  show ?thesis
    using mv_ok mv_bad cp_ok cp_bad
    by (simp add: t1 m1 m2 mv_trace t2 s2 s3 t4 s4 ev rev rm_trace rm_rest record_event_def)
qed

section \<open>The initial baseline\<close>







section \<open>Missing paths in a poll scan\<close>

lemma map_of_dict_put_other: "k \<noteq> p \<Longrightarrow> map_of (dict_put k v d) p = map_of d p"
  by (induction d) auto

lemma preserves_handle_meta_change_with:
  assumes "trace_blind f"
    and "\<And>st r. f (store_state rel st r) = f r"
    and "\<And>r. f (reconcile rel r) = f r"
    and "\<And>st r. f (mutate_cached rel st r) = f r"
  shows "preserves f (handle_meta_change_with env cfg sd rel m deleted seen budget state)"
  using assms
  by (auto simp: handle_meta_change_with_def Let_def
      intro!: preserves_basic preserves_compute_hash preserves_modify
      split: prod.splits bool.splits)

lemma handle_meta_change_keeps:
  assumes "trace_blind f"
    and "\<And>st r. f (store_state rel st r) = f r"
    and "\<And>r. f (reconcile rel r) = f r"
    and "\<And>st r. f (mutate_cached rel st r) = f r"
  shows "f (snd (handle_meta_change env cfg sd rel m deleted seen budget r)) = f r"
  using preservesD [OF preserves_handle_meta_change_with [OF assms]]
  by (simp add: handle_meta_change_def)

lemma row_view_frame:
  "trace_blind (row_view p)"
  "rel \<noteq> p \<Longrightarrow> row_view p (store_state rel st r) = row_view p r"
  "rel \<noteq> p \<Longrightarrow> row_view p (reconcile rel r) = row_view p r"
  "rel \<noteq> p \<Longrightarrow> row_view p (mutate_cached rel st r) = row_view p r"
  by (auto simp: row_view_def trace_blind_def store_state_def reconcile_def mutate_cached_def
      dict_get_def map_of_dict_put_other split: option.splits)

lemma handle_meta_change_other:
  "rel \<noteq> p \<Longrightarrow>
     row_view p (snd (handle_meta_change env cfg sd rel m deleted seen budget r)) = row_view p r"
  by (rule handle_meta_change_keeps) (simp_all add: row_view_frame)

lemma scan_seen_other:
  "p \<notin> fst ` set items \<Longrightarrow>
     row_view p (snd (scan_seen env cfg sd now items scanned budget r)) = row_view p r"
proof (induction items arbitrary: scanned budget r)
  case Nil
  then show ?case by (simp add: act_ret_def)
next
  case (Cons item items)
  obtain rel m where item: "item = (rel, m)"
    by (cases item)
  have ne: "rel \<noteq> p" and rest: "p \<notin> fst ` set items"
    using Cons.prems item by auto
  show ?case
  proof (cases "stop_event r")
    case True
    then show ?thesis by (simp add: item act_ret_def)
  next
    case False
    obtain res r1 where step:
      "handle_meta_change env cfg sd rel (Some m) False now budget r = (res, r1)"
      by (cases "handle_meta_change env cfg sd rel (Some m) False now budget r")
    have keep: "row_view p r1 = row_view p r"
      using handle_meta_change_other [OF ne, of env cfg sd "Some m" False now budget r] step
      by simp
    show ?thesis
    proof (cases res)
      case (Inl e)
      then show ?thesis
        using False step keep by (simp add: item act_bind_def)
    next
      case (Inr budget')
      then show ?thesis
        using False step keep Cons.IH [OF rest, of "Suc scanned" budget' r1]
        by (simp add: item act_bind_def)
    qed
  qed
qed

lemma scan_missing_other:
  assumes "dict_get snapshot p = Some st" and "\<not> side_evidence sd st"
  shows "row_view p (snd (scan_missing env cfg sd now snapshot paths budget r)) = row_view p r"
proof (induction paths arbitrary: budget r)
  case Nil
  then show ?case by (simp add: act_ret_def)
next
  case (Cons rel paths)
  show ?case
  proof (cases "stop_event r")
    case True
    then show ?thesis by (simp add: act_ret_def)
  next
    case False
    show ?thesis
    proof (cases "rel = p")
      case True
      then show ?thesis
        using False assms Cons.IH [of budget r]
        by (simp add: side_evidence_def Let_def)
    next
      case ne: False
      obtain res r1 where step:
        "handle_meta_change env cfg sd rel None True now budget r = (res, r1)"
        by (cases "handle_meta_change env cfg sd rel None True now budget r")
      have keep: "row_view p r1 = row_view p r"
        using handle_meta_change_other [OF ne, of env cfg sd None True now budget r] step
        by simp
      show ?thesis
      proof (cases res)
        case (Inl e)
        then show ?thesis
          using False step keep Cons.IH [of budget r]
          by (simp add: Let_def act_bind_def)
      next
        case (Inr budget')
        then show ?thesis
          using False step keep Cons.IH [of budget r] Cons.IH [of budget' r1]
          by (simp add: Let_def act_bind_def)
      qed
    qed
  qed
qed

lemma scan_endpoint_other:
  assumes "dict_get (state_cache r) p = Some st" and "\<not> side_evidence sd st"
    and "p \<notin> fst ` set (fst (ret_files env (trace r @ [Called DatetimeNow]) (IterFiles sd)))"
  shows "row_view p (snd (scan_endpoint env cfg sd r)) = row_view p r"
proof -
  let ?r1 = "record_event (Called DatetimeNow) r"
  let ?now = "ret_datetime env (trace r)"
  let ?listing = "ret_files env (trace ?r1) (IterFiles sd)"
  let ?r2 = "record_event (Called (IterFiles sd)) ?r1"
  have tr1: "trace ?r1 = trace r @ [Called DatetimeNow]"
    by (simp add: record_event_def)
  have v2: "row_view p ?r2 = row_view p r"
    using row_view_frame(1) [of p] by (simp add: trace_blind_event)
  have snap: "dict_get (state_cache ?r1) p = Some st"
    using assms(1) by (simp add: record_event_def)
  obtain res r3 where seen:
    "scan_seen env cfg sd ?now (fst ?listing) 0 (Some hash_budget_per_scan) ?r2 = (res, r3)"
    by (cases "scan_seen env cfg sd ?now (fst ?listing) 0 (Some hash_budget_per_scan) ?r2")
  have v3: "row_view p r3 = row_view p r"
    using scan_seen_other [of p "fst ?listing" env cfg sd ?now 0 "Some hash_budget_per_scan" ?r2]
      assms(3) seen v2
    by (simp add: tr1)
  have unfold: "scan_endpoint env cfg sd r =
      act_bind (scan_seen env cfg sd ?now (fst ?listing) 0 (Some hash_budget_per_scan))
        (\<lambda>(stopped, scanned, budget).
            if stopped then act_ret (scanned, 0)
            else case snd ?listing of
              Some e \<Rightarrow> act_raise e
            | None \<Rightarrow>
                act_then (scan_missing env cfg sd ?now (state_cache ?r1)
                            (missing_paths (state_cache ?r1) (map fst (fst ?listing))) budget)
                  (act_ret (scanned,
                     length (remdups (missing_paths (state_cache ?r1)
                                        (map fst (fst ?listing))))))) ?r2"
    by (simp add: scan_endpoint_def act_bind_def datetime_now_def Let_def)
  show ?thesis
  proof (cases res)
    case (Inl e)
    then show ?thesis
      using seen v3 by (simp add: unfold act_bind_def)
  next
    case (Inr out)
    obtain stopped scanned budget where out: "out = (stopped, scanned, budget)"
      by (cases out)
    let ?m = "scan_missing env cfg sd ?now (state_cache ?r1)
                (missing_paths (state_cache ?r1) (map fst (fst ?listing))) budget r3"
    have v4: "row_view p (snd ?m) = row_view p r"
      using scan_missing_other [OF snap assms(2), of env cfg ?now _ budget r3] v3
      by simp
    show ?thesis
      using seen Inr out v3 v4
      by (cases ?m; cases "fst ?m")
        (auto simp: unfold act_bind_def act_then_def act_ret_def act_raise_def
          split: option.splits)
  qed
qed

text \<open>
  Claim C9. In a scan of a side, a path of the state cache that the scan does not list
  and whose row holds no evidence for that side (no meta of the side, no tombstone,
  no seen time) is left as it is: the cached row and the stored row are unchanged
  and the path is not queued. So a scan records a missing path as deleted only when
  the row already has evidence for the scanned side.
\<close>

theorem scan_needs_side_evidence:
  assumes "dict_get (state_cache r) p = Some st"
    and "\<not> side_evidence sd st"
    and "p \<notin> fst ` set (fst (ret_files env (trace r @ [Called DatetimeNow]) (IterFiles sd)))"
  shows "dict_get (state_cache (snd (scan_endpoint env cfg sd r))) p = Some st \<and>
         db_rows (snd (scan_endpoint env cfg sd r)) p = db_rows r p \<and>
         (p \<in> set (batch_queue (snd (scan_endpoint env cfg sd r))) \<longleftrightarrow> p \<in> set (batch_queue r))"
  using scan_endpoint_other [OF assms, of cfg] assms(1)
  by (simp add: row_view_def)

text \<open>
  A scan of the remote side B that lists nothing, over a cache with a path known from
  A only and a path B has held: the first row is untouched and not queued; the second
  gets B's tombstone and is queued.
\<close>

theorem scan_needs_side_evidence_witness:
  "dict_get (state_cache (runner_with scan_rows)) ''only_a.txt'' = Some row_only_a \<and>
   \<not> side_evidence B row_only_a \<and>
   ''only_a.txt'' \<notin> fst ` set (fst (ret_files env_ok
        (trace (runner_with scan_rows) @ [Called DatetimeNow]) (IterFiles B))) \<and>
   dict_get (state_cache (snd (scan_endpoint env_ok cfg_ssh B (runner_with scan_rows))))
     ''only_a.txt'' = Some row_only_a \<and>
   ''only_a.txt'' \<notin> set (batch_queue (snd (scan_endpoint env_ok cfg_ssh B (runner_with scan_rows)))) \<and>
   side_evidence B row_b_known \<and>
   dict_get (state_cache (snd (scan_endpoint env_ok cfg_ssh B (runner_with scan_rows))))
     ''was_b.txt'' = Some (row_b_known\<lparr>b_meta := empty_meta, b_deleted := True,
                                       b_seen_at := Some 100\<rparr>) \<and>
   batch_queue (snd (scan_endpoint env_ok cfg_ssh B (runner_with scan_rows))) = [''was_b.txt'']"
proof -
  let ?r = "runner_with scan_rows"
  have h1: "dict_get (state_cache ?r) ''only_a.txt'' = Some row_only_a"
    by code_simp
  have h2: "\<not> side_evidence B row_only_a"
    by code_simp
  have h3: "''only_a.txt'' \<notin> fst ` set (fst (ret_files env_ok
        (trace ?r @ [Called DatetimeNow]) (IterFiles B)))"
    by (simp add: env_ok_def)
  have q0: "batch_queue ?r = []"
    by (simp add: runner_with_def)
  have e: "side_evidence B row_b_known"
    by code_simp
  have t: "dict_get (state_cache (snd (scan_endpoint env_ok cfg_ssh B ?r))) ''was_b.txt''
      = Some (row_b_known\<lparr>b_meta := empty_meta, b_deleted := True, b_seen_at := Some 100\<rparr>)"
    by code_simp
  have q: "batch_queue (snd (scan_endpoint env_ok cfg_ssh B ?r)) = [''was_b.txt'']"
    by code_simp
  from scan_needs_side_evidence [OF h1 h2 h3, of cfg_ssh] h1 h2 h3 q0 e t q
  show ?thesis
    by simp
qed

end
